theory Spec2Isabelle
  imports Complex_Main
begin

section \<open>Dynamic values and type assertions\<close>

text \<open>
  A value of Go's empty interface as the program meets it: what \<^verbatim>\<open>encoding/json\<close> decodes
  into \<^verbatim>\<open>interface{}\<close> (nil, bool, float64, string, slice, map) and the
  \<^verbatim>\<open>[]string\<close> literals of the tool schemas. A decoded float64 is finite, so it is
  carried as the rational it denotes. A string is a sequence of bytes.
\<close>

type_synonym error = string

datatype go_value =
    VNil
  | VBool bool
  | VFloat64 rat
  | VString string
  | VSlice "go_value list"
  | VMap "(string \<times> go_value) list"
  | VStrings "string list"

text \<open>
  A map is the list of its entries, as a map literal is written; the first entry of a key
  is the one a lookup reads, so \<open>(k, v) # m\<close> is \<open>m\<close> with \<open>k\<close> set to \<open>v\<close>.
  \<^verbatim>\<open>m[k]\<close> on a map of interface values: a missing key reads as the nil interface.
\<close>

definition map_index :: "(string \<times> go_value) list \<Rightarrow> string \<Rightarrow> go_value" where
  "map_index m k = (case map_of m k of None \<Rightarrow> VNil | Some v \<Rightarrow> v)"

text \<open>
  The comma-ok type assertions \<^verbatim>\<open>v, ok := x.(T)\<close>: the value of type \<^verbatim>\<open>T\<close> and
  \<open>True\<close>, or the zero value of \<^verbatim>\<open>T\<close> and \<open>False\<close>.
\<close>

definition assert_string :: "go_value \<Rightarrow> string \<times> bool" where
  "assert_string x = (case x of VString v \<Rightarrow> (v, True) | _ \<Rightarrow> ('''', False))"

definition assert_float64 :: "go_value \<Rightarrow> rat \<times> bool" where
  "assert_float64 x = (case x of VFloat64 v \<Rightarrow> (v, True) | _ \<Rightarrow> (0, False))"

definition assert_bool :: "go_value \<Rightarrow> bool \<times> bool" where
  "assert_bool x = (case x of VBool v \<Rightarrow> (v, True) | _ \<Rightarrow> (False, False))"

definition assert_slice :: "go_value \<Rightarrow> go_value list \<times> bool" where
  "assert_slice x = (case x of VSlice v \<Rightarrow> (v, True) | _ \<Rightarrow> ([], False))"

definition assert_map :: "go_value \<Rightarrow> (string \<times> go_value) list \<times> bool" where
  "assert_map x = (case x of VMap v \<Rightarrow> (v, True) | _ \<Rightarrow> ([], False))"

text \<open>
  The conversion \<^verbatim>\<open>int(number)\<close> of a float64: truncation towards zero. Outside the range
  of a 64-bit integer Go leaves the result to the implementation; the value here is the
  one of amd64, the least 64-bit integer.
\<close>

definition go_int :: "rat \<Rightarrow> int" where
  "go_int x =
     (let t = (if x < 0 then - \<lfloor>- x\<rfloor> else \<lfloor>x\<rfloor>)
      in if - (2 ^ 63) \<le> t \<and> t < 2 ^ 63 then t else - (2 ^ 63))"

section \<open>Protocol types (server/server.go)\<close>

record MCPRequest =
  JSONRPC :: string
  ID :: go_value
  Method :: string
  Params :: go_value

record MCPError =
  Code :: int
  Message :: string
  Data :: go_value

record Tool =
  Name :: string
  Description :: string
  InputSchema :: "(string \<times> go_value) list"

record ToolContent =
  Type :: string
  Text :: string

record ToolResult =
  Content :: "ToolContent list"
  IsError :: bool

text \<open>
  The \<^verbatim>\<open>Result interface{}\<close> field of a response holds one of three things in this
  program: the map built by \<^verbatim>\<open>handleInitialize\<close>, the map built by
  \<^verbatim>\<open>handleToolsList\<close> (its values are \<^verbatim>\<open>[]Tool\<close>), or a \<^verbatim>\<open>ToolResult\<close>. The nil
  interface is \<open>None\<close>; a nil \<^verbatim>\<open>*MCPError\<close> is \<open>None\<close>.
\<close>

datatype result_value =
    InitializeResult "(string \<times> go_value) list"
  | ToolsListResult "(string \<times> Tool list) list"
  | ToolCallResult ToolResult

record MCPResponse =
  RespJSONRPC :: string
  RespID :: go_value
  Result :: "result_value option"
  Error :: "MCPError option"

text \<open>
  The members of the JSON object that \<^verbatim>\<open>json.Marshal\<close> writes for a response, from the
  struct tags: \<^verbatim>\<open>jsonrpc\<close> and \<^verbatim>\<open>id\<close> always, \<^verbatim>\<open>result\<close> and \<^verbatim>\<open>error\<close> under
  \<^verbatim>\<open>omitempty\<close>, which drops a nil interface and a nil pointer.
\<close>

definition marshal_members :: "MCPResponse \<Rightarrow> string list" where
  "marshal_members r =
     [''jsonrpc'', ''id''] @
     (if Result r = None then [] else [''result'']) @
     (if Error r = None then [] else [''error''])"

section \<open>Service clients as the dispatcher sees them\<close>

text \<open>
  The methods of the three tool interfaces that \<^verbatim>\<open>executeTool\<close> calls, with the Go
  types of their arguments as the clients implement them (the interface declarations
  of package \<^verbatim>\<open>tools\<close> are not among the sources). A client is opaque to the
  dispatcher: a call acts on the remote world \<open>'w\<close> and returns \<^verbatim>\<open>(string, error)\<close>,
  here \<open>Inl\<close> the error's message or \<open>Inr\<close> the text.
\<close>

datatype github_call =
    GetPullRequest string string int
  | GetPullRequestDiff string string int
  | CreateIssue string string string string
  | CreatePullRequest string string string string string string
  | GetIssue string string int
  | ListBranches string string
  | ListCommits string string
  | SearchRepositories string
  | SearchIssues string
  | GetWorkflows string string
  | RunWorkflow string string string string
  | AddComment string string int string
  | GetComments string string int
  | AssignCopilot string string int "string list"
  | CreateBranch string string string string
  | CreateRepository string string bool
  | GetCommit string string string
  | GetReleaseByTag string string string
  | GetTag string string string
  | SearchCode string
  | SearchPullRequests string
datatype jira_call =
    GetTicketByID string
  | SearchTickets string
  | CreateTicket string string string
datatype notion_call =
    SearchPagesByTitle string
  | GetPageByURL string
  | GetDatabase string
  | CreatePage string string string
  | CreateDatabase string string
  | UpdatePage string string string
  | UpdateDatabase string string

record 'w MCPServer =
  Github :: "github_call \<Rightarrow> 'w \<Rightarrow> (error + string) \<times> 'w"
  Jira :: "jira_call \<Rightarrow> 'w \<Rightarrow> (error + string) \<times> 'w"
  Notion :: "notion_call \<Rightarrow> 'w \<Rightarrow> (error + string) \<times> 'w"

text \<open>
  What the process acts on: the lines written to standard output, each the response
  handed to \<^verbatim>\<open>sendJSON\<close>, and the remote world behind the clients.
\<close>

record 'w io =
  stdout :: "MCPResponse list"
  remote :: 'w

section \<open>The tool catalog\<close>

definition getAvailableTools :: "Tool list" where
  "getAvailableTools = [
     \<lparr>Name = ''github_get_pull_request'',
      Description = ''Get details of a specific pull request'',
      InputSchema =
        [(''type'', VString ''object''),
         (''properties'', VMap [(''owner'', VMap [(''type'', VString ''string''),
             (''description'', VString ''Repository owner'')]),
           (''repo'', VMap [(''type'', VString ''string''),
             (''description'', VString ''Repository name'')]),
           (''number'', VMap [(''type'', VString ''integer''),
             (''description'', VString ''Pull request number'')])]),
         (''required'', VStrings [''owner'', ''repo'', ''number''])]\<rparr>,
     \<lparr>Name = ''github_get_pull_request_diff'',
      Description = ''Get the diff of a specific pull request for analysis'',
      InputSchema =
        [(''type'', VString ''object''),
         (''properties'', VMap [(''owner'', VMap [(''type'', VString ''string''),
             (''description'', VString ''Repository owner'')]),
           (''repo'', VMap [(''type'', VString ''string''),
             (''description'', VString ''Repository name'')]),
           (''number'', VMap [(''type'', VString ''integer''),
             (''description'', VString ''Pull request number'')])]),
         (''required'', VStrings [''owner'', ''repo'', ''number''])]\<rparr>,
     \<lparr>Name = ''github_create_issue'',
      Description = ''Create a new issue in a repository'',
      InputSchema =
        [(''type'', VString ''object''),
         (''properties'', VMap [(''owner'', VMap [(''type'', VString ''string''),
             (''description'', VString ''Repository owner'')]),
           (''repo'', VMap [(''type'', VString ''string''),
             (''description'', VString ''Repository name'')]),
           (''title'', VMap [(''type'', VString ''string''),
             (''description'', VString ''Issue title'')]),
           (''body'', VMap [(''type'', VString ''string''),
             (''description'', VString ''Issue body'')])]),
         (''required'', VStrings [''owner'', ''repo'', ''title''])]\<rparr>,
     \<lparr>Name = ''github_create_pull_request'',
      Description = ''Create a new pull request'',
      InputSchema =
        [(''type'', VString ''object''),
         (''properties'', VMap [(''owner'', VMap [(''type'', VString ''string''),
             (''description'', VString ''Repository owner'')]),
           (''repo'', VMap [(''type'', VString ''string''),
             (''description'', VString ''Repository name'')]),
           (''title'', VMap [(''type'', VString ''string''),
             (''description'', VString ''Pull request title'')]),
           (''body'', VMap [(''type'', VString ''string''),
             (''description'', VString ''Pull request body'')]),
           (''head'', VMap [(''type'', VString ''string''),
             (''description'', VString ''Source branch'')]),
           (''base'', VMap [(''type'', VString ''string''),
             (''description'', VString ''Target branch'')])]),
         (''required'', VStrings [''owner'', ''repo'', ''title'', ''head'', ''base''])]\<rparr>,
     \<lparr>Name = ''github_get_issue'',
      Description = ''Get details of a specific issue'',
      InputSchema =
        [(''type'', VString ''object''),
         (''properties'', VMap [(''owner'', VMap [(''type'', VString ''string''),
             (''description'', VString ''Repository owner'')]),
           (''repo'', VMap [(''type'', VString ''string''),
             (''description'', VString ''Repository name'')]),
           (''number'', VMap [(''type'', VString ''integer''),
             (''description'', VString ''Issue number'')])]),
         (''required'', VStrings [''owner'', ''repo'', ''number''])]\<rparr>,
     \<lparr>Name = ''github_list_branches'',
      Description = ''List all branches in a repository'',
      InputSchema =
        [(''type'', VString ''object''),
         (''properties'', VMap [(''owner'', VMap [(''type'', VString ''string''),
             (''description'', VString ''Repository owner'')]),
           (''repo'', VMap [(''type'', VString ''string''),
             (''description'', VString ''Repository name'')])]),
         (''required'', VStrings [''owner'', ''repo''])]\<rparr>,
     \<lparr>Name = ''github_list_commits'',
      Description = ''List commits in a repository'',
      InputSchema =
        [(''type'', VString ''object''),
         (''properties'', VMap [(''owner'', VMap [(''type'', VString ''string''),
             (''description'', VString ''Repository owner'')]),
           (''repo'', VMap [(''type'', VString ''string''),
             (''description'', VString ''Repository name'')])]),
         (''required'', VStrings [''owner'', ''repo''])]\<rparr>,
     \<lparr>Name = ''github_search_repositories'',
      Description = ''Search for repositories'',
      InputSchema =
        [(''type'', VString ''object''),
         (''properties'', VMap [(''query'', VMap [(''type'', VString ''string''),
             (''description'', VString ''Search query'')])]),
         (''required'', VStrings [''query''])]\<rparr>,
     \<lparr>Name = ''github_search_issues'',
      Description = ''Search for issues across repositories'',
      InputSchema =
        [(''type'', VString ''object''),
         (''properties'', VMap [(''query'', VMap [(''type'', VString ''string''),
             (''description'', VString ''Search query'')])]),
         (''required'', VStrings [''query''])]\<rparr>,
     \<lparr>Name = ''github_get_workflows'',
      Description = ''Get workflows for a repository'',
      InputSchema =
        [(''type'', VString ''object''),
         (''properties'', VMap [(''owner'', VMap [(''type'', VString ''string''),
             (''description'', VString ''Repository owner'')]),
           (''repo'', VMap [(''type'', VString ''string''),
             (''description'', VString ''Repository name'')])]),
         (''required'', VStrings [''owner'', ''repo''])]\<rparr>,
     \<lparr>Name = ''github_run_workflow'',
      Description = ''Trigger a workflow run'',
      InputSchema =
        [(''type'', VString ''object''),
         (''properties'', VMap [(''owner'', VMap [(''type'', VString ''string''),
             (''description'', VString ''Repository owner'')]),
           (''repo'', VMap [(''type'', VString ''string''),
             (''description'', VString ''Repository name'')]),
           (''workflowID'', VMap [(''type'', VString ''string''),
             (''description'', VString ''Workflow ID'')]),
           (''ref'', VMap [(''type'', VString ''string''),
             (''description'', VString ''Git reference'')])]),
         (''required'', VStrings [''owner'', ''repo'', ''workflowID'', ''ref''])]\<rparr>,
     \<lparr>Name = ''github_add_comment'',
      Description = ''Add a comment to an issue or pull request'',
      InputSchema =
        [(''type'', VString ''object''),
         (''properties'', VMap [(''owner'', VMap [(''type'', VString ''string''),
             (''description'', VString ''Repository owner'')]),
           (''repo'', VMap [(''type'', VString ''string''),
             (''description'', VString ''Repository name'')]),
           (''number'', VMap [(''type'', VString ''integer''),
             (''description'', VString ''Issue or pull request number'')]),
           (''body'', VMap [(''type'', VString ''string''),
             (''description'', VString ''Comment body'')])]),
         (''required'', VStrings [''owner'', ''repo'', ''number'', ''body''])]\<rparr>,
     \<lparr>Name = ''github_get_comments'',
      Description = ''Get comments from an issue or pull request'',
      InputSchema =
        [(''type'', VString ''object''),
         (''properties'', VMap [(''owner'', VMap [(''type'', VString ''string''),
             (''description'', VString ''Repository owner'')]),
           (''repo'', VMap [(''type'', VString ''string''),
             (''description'', VString ''Repository name'')]),
           (''number'', VMap [(''type'', VString ''integer''),
             (''description'', VString ''Issue or pull request number'')])]),
         (''required'', VStrings [''owner'', ''repo'', ''number''])]\<rparr>,
     \<lparr>Name = ''github_assign_copilot'',
      Description = ''Assign users to an issue or pull request'',
      InputSchema =
        [(''type'', VString ''object''),
         (''properties'', VMap [(''owner'', VMap [(''type'', VString ''string''),
             (''description'', VString ''Repository owner'')]),
           (''repo'', VMap [(''type'', VString ''string''),
             (''description'', VString ''Repository name'')]),
           (''number'', VMap [(''type'', VString ''integer''),
             (''description'', VString ''Issue or pull request number'')]),
           (''assignees'', VMap [(''type'', VString ''array''),
             (''items'', VMap [(''type'', VString ''string'')]),
             (''description'', VString ''Array of usernames to assign'')])]),
         (''required'', VStrings [''owner'', ''repo'', ''number'', ''assignees''])]\<rparr>,
     \<lparr>Name = ''github_create_branch'',
      Description = ''Create a new branch in a repository'',
      InputSchema =
        [(''type'', VString ''object''),
         (''properties'', VMap [(''owner'', VMap [(''type'', VString ''string''),
             (''description'', VString ''Repository owner'')]),
           (''repo'', VMap [(''type'', VString ''string''),
             (''description'', VString ''Repository name'')]),
           (''branchName'', VMap [(''type'', VString ''string''),
             (''description'', VString ''Name for the new branch'')]),
           (''sha'', VMap [(''type'', VString ''string''),
             (''description'', VString ''SHA of the commit to branch from'')])]),
         (''required'', VStrings [''owner'', ''repo'', ''branchName'', ''sha''])]\<rparr>,
     \<lparr>Name = ''github_create_repository'',
      Description = ''Create a new repository'',
      InputSchema =
        [(''type'', VString ''object''),
         (''properties'', VMap [(''name'', VMap [(''type'', VString ''string''),
             (''description'', VString ''Repository name'')]),
           (''description'', VMap [(''type'', VString ''string''),
             (''description'', VString ''Repository description'')]),
           (''private'', VMap [(''type'', VString ''boolean''),
             (''description'', VString ''Whether the repository should be private'')])]),
         (''required'', VStrings [''name''])]\<rparr>,
     \<lparr>Name = ''github_get_commit'',
      Description = ''Get details of a specific commit'',
      InputSchema =
        [(''type'', VString ''object''),
         (''properties'', VMap [(''owner'', VMap [(''type'', VString ''string''),
             (''description'', VString ''Repository owner'')]),
           (''repo'', VMap [(''type'', VString ''string''),
             (''description'', VString ''Repository name'')]),
           (''sha'', VMap [(''type'', VString ''string''),
             (''description'', VString ''Commit SHA'')])]),
         (''required'', VStrings [''owner'', ''repo'', ''sha''])]\<rparr>,
     \<lparr>Name = ''github_get_release_by_tag'',
      Description = ''Get release information by tag'',
      InputSchema =
        [(''type'', VString ''object''),
         (''properties'', VMap [(''owner'', VMap [(''type'', VString ''string''),
             (''description'', VString ''Repository owner'')]),
           (''repo'', VMap [(''type'', VString ''string''),
             (''description'', VString ''Repository name'')]),
           (''tagName'', VMap [(''type'', VString ''string''),
             (''description'', VString ''Tag name'')])]),
         (''required'', VStrings [''owner'', ''repo'', ''tagName''])]\<rparr>,
     \<lparr>Name = ''github_get_tag'',
      Description = ''Get tag information'',
      InputSchema =
        [(''type'', VString ''object''),
         (''properties'', VMap [(''owner'', VMap [(''type'', VString ''string''),
             (''description'', VString ''Repository owner'')]),
           (''repo'', VMap [(''type'', VString ''string''),
             (''description'', VString ''Repository name'')]),
           (''tagName'', VMap [(''type'', VString ''string''),
             (''description'', VString ''Tag name'')])]),
         (''required'', VStrings [''owner'', ''repo'', ''tagName''])]\<rparr>,
     \<lparr>Name = ''github_search_code'',
      Description = ''Search for code in repositories'',
      InputSchema =
        [(''type'', VString ''object''),
         (''properties'', VMap [(''query'', VMap [(''type'', VString ''string''),
             (''description'', VString ''Search query'')])]),
         (''required'', VStrings [''query''])]\<rparr>,
     \<lparr>Name = ''github_search_pull_requests'',
      Description = ''Search for pull requests'',
      InputSchema =
        [(''type'', VString ''object''),
         (''properties'', VMap [(''query'', VMap [(''type'', VString ''string''),
             (''description'', VString ''Search query'')])]),
         (''required'', VStrings [''query''])]\<rparr>,
     \<lparr>Name = ''jira_get_ticket'',
      Description = ''Get details of a Jira ticket'',
      InputSchema =
        [(''type'', VString ''object''),
         (''properties'', VMap [(''ticketID'', VMap [(''type'', VString ''string''),
             (''description'', VString ''Jira ticket ID'')])]),
         (''required'', VStrings [''ticketID''])]\<rparr>,
     \<lparr>Name = ''jira_search_tickets'',
      Description = ''Search for Jira tickets using JQL'',
      InputSchema =
        [(''type'', VString ''object''),
         (''properties'', VMap [(''jql'', VMap [(''type'', VString ''string''),
             (''description'', VString ''JQL query string'')])]),
         (''required'', VStrings [''jql''])]\<rparr>,
     \<lparr>Name = ''jira_create_ticket'',
      Description = ''Create a new Jira ticket'',
      InputSchema =
        [(''type'', VString ''object''),
         (''properties'', VMap [(''projectKey'', VMap [(''type'', VString ''string''),
             (''description'', VString ''Project key'')]),
           (''summary'', VMap [(''type'', VString ''string''),
             (''description'', VString ''Ticket summary'')]),
           (''description'', VMap [(''type'', VString ''string''),
             (''description'', VString ''Ticket description'')])]),
         (''required'', VStrings [''projectKey'', ''summary''])]\<rparr>,
     \<lparr>Name = ''notion_search_pages'',
      Description = ''Search for Notion pages by title'',
      InputSchema =
        [(''type'', VString ''object''),
         (''properties'', VMap [(''title'', VMap [(''type'', VString ''string''),
             (''description'', VString ''Page title to search for'')])]),
         (''required'', VStrings [''title''])]\<rparr>,
     \<lparr>Name = ''notion_get_page'',
      Description = ''Get a Notion page by URL'',
      InputSchema =
        [(''type'', VString ''object''),
         (''properties'', VMap [(''url'', VMap [(''type'', VString ''string''),
             (''description'', VString ''Page URL'')])]),
         (''required'', VStrings [''url''])]\<rparr>,
     \<lparr>Name = ''notion_get_database'',
      Description = ''Get a Notion database by ID'',
      InputSchema =
        [(''type'', VString ''object''),
         (''properties'', VMap [(''databaseID'', VMap [(''type'', VString ''string''),
             (''description'', VString ''Database ID'')])]),
         (''required'', VStrings [''databaseID''])]\<rparr>,
     \<lparr>Name = ''notion_create_page'',
      Description = ''Create a new Notion page'',
      InputSchema =
        [(''type'', VString ''object''),
         (''properties'', VMap [(''parentID'', VMap [(''type'', VString ''string''),
             (''description'', VString ''Parent page/database ID'')]),
           (''title'', VMap [(''type'', VString ''string''),
             (''description'', VString ''Page title'')]),
           (''content'', VMap [(''type'', VString ''string''),
             (''description'', VString ''Page content'')])]),
         (''required'', VStrings [''parentID'', ''title''])]\<rparr>,
     \<lparr>Name = ''notion_create_database'',
      Description = ''Create a new Notion database'',
      InputSchema =
        [(''type'', VString ''object''),
         (''properties'', VMap [(''parentPageID'', VMap [(''type'', VString ''string''),
             (''description'', VString ''Parent page ID'')]),
           (''title'', VMap [(''type'', VString ''string''),
             (''description'', VString ''Database title'')])]),
         (''required'', VStrings [''parentPageID'', ''title''])]\<rparr>,
     \<lparr>Name = ''notion_update_page'',
      Description = ''Update an existing Notion page'',
      InputSchema =
        [(''type'', VString ''object''),
         (''properties'', VMap [(''pageID'', VMap [(''type'', VString ''string''),
             (''description'', VString ''Page ID to update'')]),
           (''title'', VMap [(''type'', VString ''string''),
             (''description'', VString ''New page title'')]),
           (''content'', VMap [(''type'', VString ''string''),
             (''description'', VString ''New page content'')])]),
         (''required'', VStrings [''pageID''])]\<rparr>,
     \<lparr>Name = ''notion_update_database'',
      Description = ''Update an existing Notion database'',
      InputSchema =
        [(''type'', VString ''object''),
         (''properties'', VMap [(''databaseID'', VMap [(''type'', VString ''string''),
             (''description'', VString ''Database ID to update'')]),
           (''title'', VMap [(''type'', VString ''string''),
             (''description'', VString ''New database title'')])]),
         (''required'', VStrings [''databaseID'', ''title''])]\<rparr>]"

section \<open>Sending\<close>

text \<open>
  \<^verbatim>\<open>sendJSON\<close> marshals and prints one line. Marshalling a response of this program
  cannot fail (ids come from the decoder, texts are strings), so the error branch that
  only logs is not a branch of the model.
\<close>

definition sendJSON :: "MCPResponse \<Rightarrow> 'w io \<Rightarrow> 'w io" where
  "sendJSON v \<sigma> = \<sigma>\<lparr>stdout := stdout \<sigma> @ [v]\<rparr>"

definition sendResponse :: "go_value \<Rightarrow> result_value option \<Rightarrow> 'w io \<Rightarrow> 'w io" where
  "sendResponse id' result \<sigma> =
     sendJSON \<lparr>RespJSONRPC = ''2.0'', RespID = id', Result = result, Error = None\<rparr> \<sigma>"

definition sendError :: "go_value \<Rightarrow> int \<Rightarrow> string \<Rightarrow> go_value \<Rightarrow> 'w io \<Rightarrow> 'w io" where
  "sendError id' code message data \<sigma> =
     sendJSON \<lparr>RespJSONRPC = ''2.0'', RespID = id', Result = None,
       Error = Some \<lparr>Code = code, Message = message, Data = data\<rparr>\<rparr> \<sigma>"

section \<open>The dispatcher\<close>

definition executeTool ::
  "'w MCPServer \<Rightarrow> string \<Rightarrow> (string \<times> go_value) list \<Rightarrow> 'w \<Rightarrow> (error + string) \<times> 'w" where
  "executeTool s name args w =
    (if name = ''github_get_pull_request'' then
       (let owner = fst (assert_string (map_index args ''owner''));
            repo = fst (assert_string (map_index args ''repo''));
            number = fst (assert_float64 (map_index args ''number''))
        in Github s (GetPullRequest owner repo (go_int number)) w)
     else if name = ''github_get_pull_request_diff'' then
       (let owner = fst (assert_string (map_index args ''owner''));
            repo = fst (assert_string (map_index args ''repo''));
            number = fst (assert_float64 (map_index args ''number''))
        in Github s (GetPullRequestDiff owner repo (go_int number)) w)
     else if name = ''github_create_issue'' then
       (let owner = fst (assert_string (map_index args ''owner''));
            repo = fst (assert_string (map_index args ''repo''));
            title = fst (assert_string (map_index args ''title''));
            body = fst (assert_string (map_index args ''body''))
        in Github s (CreateIssue owner repo title body) w)
     else if name = ''github_create_pull_request'' then
       (let owner = fst (assert_string (map_index args ''owner''));
            repo = fst (assert_string (map_index args ''repo''));
            title = fst (assert_string (map_index args ''title''));
            body = fst (assert_string (map_index args ''body''));
            head = fst (assert_string (map_index args ''head''));
            base = fst (assert_string (map_index args ''base''))
        in Github s (CreatePullRequest owner repo title body head base) w)
     else if name = ''github_get_issue'' then
       (let owner = fst (assert_string (map_index args ''owner''));
            repo = fst (assert_string (map_index args ''repo''));
            number = fst (assert_float64 (map_index args ''number''))
        in Github s (GetIssue owner repo (go_int number)) w)
     else if name = ''github_list_branches'' then
       (let owner = fst (assert_string (map_index args ''owner''));
            repo = fst (assert_string (map_index args ''repo''))
        in Github s (ListBranches owner repo) w)
     else if name = ''github_list_commits'' then
       (let owner = fst (assert_string (map_index args ''owner''));
            repo = fst (assert_string (map_index args ''repo''))
        in Github s (ListCommits owner repo) w)
     else if name = ''github_search_repositories'' then
       (let query = fst (assert_string (map_index args ''query''))
        in Github s (SearchRepositories query) w)
     else if name = ''github_search_issues'' then
       (let query = fst (assert_string (map_index args ''query''))
        in Github s (SearchIssues query) w)
     else if name = ''github_get_workflows'' then
       (let owner = fst (assert_string (map_index args ''owner''));
            repo = fst (assert_string (map_index args ''repo''))
        in Github s (GetWorkflows owner repo) w)
     else if name = ''github_run_workflow'' then
       (let owner = fst (assert_string (map_index args ''owner''));
            repo = fst (assert_string (map_index args ''repo''));
            workflowID = fst (assert_string (map_index args ''workflowID''));
            ref = fst (assert_string (map_index args ''ref''))
        in Github s (RunWorkflow owner repo workflowID ref) w)
     else if name = ''github_add_comment'' then
       (let owner = fst (assert_string (map_index args ''owner''));
            repo = fst (assert_string (map_index args ''repo''));
            number = fst (assert_float64 (map_index args ''number''));
            body = fst (assert_string (map_index args ''body''))
        in Github s (AddComment owner repo (go_int number) body) w)
     else if name = ''github_get_comments'' then
       (let owner = fst (assert_string (map_index args ''owner''));
            repo = fst (assert_string (map_index args ''repo''));
            number = fst (assert_float64 (map_index args ''number''))
        in Github s (GetComments owner repo (go_int number)) w)
     else if name = ''github_assign_copilot'' then
       (let owner = fst (assert_string (map_index args ''owner''));
            repo = fst (assert_string (map_index args ''repo''));
            number = fst (assert_float64 (map_index args ''number''));
            assignees = fst (assert_slice (map_index args ''assignees''));
            assigneeStrs = map (\<lambda>assignee. fst (assert_string assignee)) assignees
        in Github s (AssignCopilot owner repo (go_int number) assigneeStrs) w)
     else if name = ''github_create_branch'' then
       (let owner = fst (assert_string (map_index args ''owner''));
            repo = fst (assert_string (map_index args ''repo''));
            branchName = fst (assert_string (map_index args ''branchName''));
            sha = fst (assert_string (map_index args ''sha''))
        in Github s (CreateBranch owner repo branchName sha) w)
     else if name = ''github_create_repository'' then
       (let name = fst (assert_string (map_index args ''name''));
            description = fst (assert_string (map_index args ''description''));
            private = fst (assert_bool (map_index args ''private''))
        in Github s (CreateRepository name description private) w)
     else if name = ''github_get_commit'' then
       (let owner = fst (assert_string (map_index args ''owner''));
            repo = fst (assert_string (map_index args ''repo''));
            sha = fst (assert_string (map_index args ''sha''))
        in Github s (GetCommit owner repo sha) w)
     else if name = ''github_get_release_by_tag'' then
       (let owner = fst (assert_string (map_index args ''owner''));
            repo = fst (assert_string (map_index args ''repo''));
            tagName = fst (assert_string (map_index args ''tagName''))
        in Github s (GetReleaseByTag owner repo tagName) w)
     else if name = ''github_get_tag'' then
       (let owner = fst (assert_string (map_index args ''owner''));
            repo = fst (assert_string (map_index args ''repo''));
            tagName = fst (assert_string (map_index args ''tagName''))
        in Github s (GetTag owner repo tagName) w)
     else if name = ''github_search_code'' then
       (let query = fst (assert_string (map_index args ''query''))
        in Github s (SearchCode query) w)
     else if name = ''github_search_pull_requests'' then
       (let query = fst (assert_string (map_index args ''query''))
        in Github s (SearchPullRequests query) w)
     else if name = ''jira_get_ticket'' then
       (let ticketID = fst (assert_string (map_index args ''ticketID''))
        in Jira s (GetTicketByID ticketID) w)
     else if name = ''jira_search_tickets'' then
       (let jql = fst (assert_string (map_index args ''jql''))
        in Jira s (SearchTickets jql) w)
     else if name = ''jira_create_ticket'' then
       (let projectKey = fst (assert_string (map_index args ''projectKey''));
            summary = fst (assert_string (map_index args ''summary''));
            description = fst (assert_string (map_index args ''description''))
        in Jira s (CreateTicket projectKey summary description) w)
     else if name = ''notion_search_pages'' then
       (let title = fst (assert_string (map_index args ''title''))
        in Notion s (SearchPagesByTitle title) w)
     else if name = ''notion_get_page'' then
       (let url = fst (assert_string (map_index args ''url''))
        in Notion s (GetPageByURL url) w)
     else if name = ''notion_get_database'' then
       (let databaseID = fst (assert_string (map_index args ''databaseID''))
        in Notion s (GetDatabase databaseID) w)
     else if name = ''notion_create_page'' then
       (let parentID = fst (assert_string (map_index args ''parentID''));
            title = fst (assert_string (map_index args ''title''));
            content = fst (assert_string (map_index args ''content''))
        in Notion s (CreatePage parentID title content) w)
     else if name = ''notion_create_database'' then
       (let parentPageID = fst (assert_string (map_index args ''parentPageID''));
            title = fst (assert_string (map_index args ''title''))
        in Notion s (CreateDatabase parentPageID title) w)
     else if name = ''notion_update_page'' then
       (let pageID = fst (assert_string (map_index args ''pageID''));
            title = fst (assert_string (map_index args ''title''));
            content = fst (assert_string (map_index args ''content''))
        in Notion s (UpdatePage pageID title content) w)
     else if name = ''notion_update_database'' then
       (let databaseID = fst (assert_string (map_index args ''databaseID''));
            title = fst (assert_string (map_index args ''title''))
        in Notion s (UpdateDatabase databaseID title) w)
     else (Inl (''unknown tool: '' @ name), w))"

definition handleInitialize :: "MCPRequest \<Rightarrow> 'w io \<Rightarrow> 'w io" where
  "handleInitialize request \<sigma> =
     (let result =
        [(''protocolVersion'', VString ''2024-11-05''),
         (''capabilities'', VMap [(''tools'', VMap [])]),
         (''serverInfo'', VMap [(''name'', VString ''mcp-integration-server''),
                                (''version'', VString ''1.0.0'')])]
      in sendResponse (ID request) (Some (InitializeResult result)) \<sigma>)"

definition handleToolsList :: "MCPRequest \<Rightarrow> 'w io \<Rightarrow> 'w io" where
  "handleToolsList request \<sigma> =
     (let tools = getAvailableTools;
          result = [(''tools'', tools)]
      in sendResponse (ID request) (Some (ToolsListResult result)) \<sigma>)"

definition handleToolCall :: "'w MCPServer \<Rightarrow> MCPRequest \<Rightarrow> 'w io \<Rightarrow> 'w io" where
  "handleToolCall s request \<sigma> =
     (case assert_map (Params request) of
        (params, False) \<Rightarrow> sendError (ID request) (- 32602) ''Invalid params'' VNil \<sigma>
      | (params, True) \<Rightarrow>
          (case assert_string (map_index params ''name'') of
             (name, False) \<Rightarrow> sendError (ID request) (- 32602) ''Missing tool name'' VNil \<sigma>
           | (name, True) \<Rightarrow>
               (let arguments =
                      (case assert_map (map_index params ''arguments'') of
                         (arguments, False) \<Rightarrow> []
                       | (arguments, True) \<Rightarrow> arguments)
                in case executeTool s name arguments (remote \<sigma>) of
                     (Inl err, w) \<Rightarrow>
                       sendResponse (ID request)
                         (Some (ToolCallResult
                            \<lparr>Content = [\<lparr>Type = ''text'', Text = ''Error: '' @ err\<rparr>],
                             IsError = True\<rparr>))
                         (\<sigma>\<lparr>remote := w\<rparr>)
                   | (Inr result, w) \<Rightarrow>
                       sendResponse (ID request)
                         (Some (ToolCallResult
                            \<lparr>Content = [\<lparr>Type = ''text'', Text = result\<rparr>],
                             IsError = False\<rparr>))
                         (\<sigma>\<lparr>remote := w\<rparr>))))"

definition handleRequest :: "'w MCPServer \<Rightarrow> MCPRequest \<Rightarrow> 'w io \<Rightarrow> 'w io" where
  "handleRequest s request \<sigma> =
     (if Method request = ''initialize'' then handleInitialize request \<sigma>
      else if Method request = ''tools/list'' then handleToolsList request \<sigma>
      else if Method request = ''tools/call'' then handleToolCall s request \<sigma>
      else sendError (ID request) (- 32601) ''Method not found'' VNil \<sigma>)"

section \<open>The transport loop\<close>

text \<open>
  \<^verbatim>\<open>Start\<close> over the lines the scanner yields before it stops (at the end of input, a
  read error or a line longer than its buffer). \<^verbatim>\<open>strings.TrimSpace\<close> and
  \<^verbatim>\<open>json.Unmarshal\<close> are the standard library's and are parameters: \<open>Unmarshal line r\<close>
  is the error (if any) and the request that decoding \<open>line\<close> into \<open>r\<close> leaves behind.
  Each iteration declares a fresh, zero-valued request. Log lines go to standard error
  and are not part of the output.
\<close>

definition zero_request :: MCPRequest where
  "zero_request = \<lparr>JSONRPC = '''', ID = VNil, Method = '''', Params = VNil\<rparr>"

fun Start ::
  "(string \<Rightarrow> string) \<Rightarrow> (string \<Rightarrow> MCPRequest \<Rightarrow> error option \<times> MCPRequest) \<Rightarrow>
   'w MCPServer \<Rightarrow> string list \<Rightarrow> 'w io \<Rightarrow> 'w io" where
  "Start TrimSpace Unmarshal s [] \<sigma> = \<sigma>"
| "Start TrimSpace Unmarshal s (line # rest) \<sigma> =
     (if TrimSpace line = '''' then Start TrimSpace Unmarshal s rest \<sigma>
      else
        (case Unmarshal line zero_request of
           (Some err, request) \<Rightarrow>
             Start TrimSpace Unmarshal s rest (sendError (ID request) (- 32700) ''Parse error'' VNil \<sigma>)
         | (None, request) \<Rightarrow>
             Start TrimSpace Unmarshal s rest (handleRequest s request \<sigma>)))"

text \<open>
  The lines that \<^verbatim>\<open>bufio.Scanner\<close> yields from the bytes of standard input, with its
  default split function and buffer. A line ends at a newline, or at the end of the
  input when bytes remain; a carriage return before the end of the line is dropped.
  The scanner stops for good (\<^verbatim>\<open>Scan\<close> returns false, with an error) once 65536 bytes
  of a line have been read without a newline. \<open>acc\<close> holds the bytes of the current
  line read so far.
\<close>

definition MaxScanTokenSize :: nat where
  "MaxScanTokenSize = 64 * 1024"

definition dropCR :: "string \<Rightarrow> string" where
  "dropCR data = (if data \<noteq> [] \<and> last data = CHR 0x0D then butlast data else data)"

fun scanner_lines :: "string \<Rightarrow> string \<Rightarrow> string list" where
  "scanner_lines acc [] = (if acc = [] then [] else [dropCR acc])"
| "scanner_lines acc (c # cs) =
     (if c = CHR 0x0A then dropCR acc # scanner_lines [] cs
      else if MaxScanTokenSize \<le> length acc + 1 then []
      else scanner_lines (acc @ [c]) cs)"


section \<open>Configuration (config/config.go)\<close>

record Config =
  NotionToken :: string
  GithubToken :: string
  JiraToken :: string
  JiraURL :: string
  JiraUsername :: string

definition zero_Config :: Config where
  "zero_Config =
     \<lparr>NotionToken = '''', GithubToken = '''', JiraToken = '''', JiraURL = '''', JiraUsername = ''''\<rparr>"

text \<open>
  \<^verbatim>\<open>yaml.Unmarshal(data, &cfg)\<close> is the YAML library's. Its parser is the parameter
  \<open>decode\<close>: an error, or the string the document assigns to each key (a key the
  document does not have, or has with a null value, is assigned nothing). Decoding into
  the struct sets the fields whose \<^verbatim>\<open>yaml\<close> tag the document assigns and leaves the
  others as they were.
\<close>

definition yaml_Unmarshal ::
  "(string \<Rightarrow> error + (string \<rightharpoonup> string)) \<Rightarrow> string \<Rightarrow> Config \<Rightarrow> error + Config" where
  "yaml_Unmarshal decode data cfg =
     (case decode data of
        Inl err \<Rightarrow> Inl err
      | Inr doc \<Rightarrow>
          Inr \<lparr>NotionToken = (case doc ''notion_token'' of Some v \<Rightarrow> v | None \<Rightarrow> NotionToken cfg),
               GithubToken = (case doc ''github_token'' of Some v \<Rightarrow> v | None \<Rightarrow> GithubToken cfg),
               JiraToken = (case doc ''jira_token'' of Some v \<Rightarrow> v | None \<Rightarrow> JiraToken cfg),
               JiraURL = (case doc ''jira_url'' of Some v \<Rightarrow> v | None \<Rightarrow> JiraURL cfg),
               JiraUsername = (case doc ''jira_username'' of Some v \<Rightarrow> v | None \<Rightarrow> JiraUsername cfg)\<rparr>)"

text \<open>
  \<^verbatim>\<open>LoadConfig\<close>: \<open>ReadFile\<close> is \<^verbatim>\<open>os.ReadFile\<close> (\<open>Inl\<close> when the file cannot be read),
  \<open>Getenv\<close> is \<^verbatim>\<open>os.Getenv\<close> (the empty string for an unset variable).
\<close>

definition LoadConfig ::
  "(string \<Rightarrow> error + string) \<Rightarrow> (string \<Rightarrow> error + (string \<rightharpoonup> string)) \<Rightarrow>
   (string \<Rightarrow> string) \<Rightarrow> string \<Rightarrow> error + Config" where
  "LoadConfig ReadFile decode Getenv configPath =
     (case (case ReadFile configPath of
              Inr data \<Rightarrow> yaml_Unmarshal decode data zero_Config
            | Inl _ \<Rightarrow> Inr zero_Config) of
        Inl err \<Rightarrow> Inl err
      | Inr cfg1 \<Rightarrow>
          (let localPath = ''local.yml'' in
           case (case ReadFile localPath of
                   Inr data \<Rightarrow> yaml_Unmarshal decode data cfg1
                 | Inl _ \<Rightarrow> Inr cfg1) of
             Inl err \<Rightarrow> Inl err
           | Inr cfg2 \<Rightarrow>
               (let cfg3 = (let token = Getenv ''NOTION_TOKEN''
                            in if token \<noteq> '''' then cfg2\<lparr>NotionToken := token\<rparr> else cfg2);
                    cfg4 = (let token = Getenv ''GITHUB_TOKEN''
                            in if token \<noteq> '''' then cfg3\<lparr>GithubToken := token\<rparr> else cfg3);
                    cfg5 = (let token = Getenv ''JIRA_TOKEN''
                            in if token \<noteq> '''' then cfg4\<lparr>JiraToken := token\<rparr> else cfg4);
                    cfg6 = (let url = Getenv ''JIRA_URL''
                            in if url \<noteq> '''' then cfg5\<lparr>JiraURL := url\<rparr> else cfg5);
                    cfg7 = (let username = Getenv ''JIRA_USERNAME''
                            in if username \<noteq> '''' then cfg6\<lparr>JiraUsername := username\<rparr> else cfg6)
                in Inr cfg7)))"

text \<open>
  The layered reading of one field, in the words of the specification: the environment
  variable when it is set non-empty, else the override file's value when that file
  assigns the key, else the base file's, else the empty string. \<open>file_value\<close> is what a
  file assigns to a key: nothing when the file cannot be read.
\<close>

definition file_value ::
  "(string \<Rightarrow> error + string) \<Rightarrow> (string \<Rightarrow> error + (string \<rightharpoonup> string)) \<Rightarrow>
   string \<Rightarrow> string \<Rightarrow> string option" where
  "file_value ReadFile decode path key =
     (case ReadFile path of
        Inl _ \<Rightarrow> None
      | Inr data \<Rightarrow> (case decode data of Inl _ \<Rightarrow> None | Inr doc \<Rightarrow> doc key))"

definition decode_fails ::
  "(string \<Rightarrow> error + string) \<Rightarrow> (string \<Rightarrow> error + (string \<rightharpoonup> string)) \<Rightarrow> string \<Rightarrow> bool" where
  "decode_fails ReadFile decode path =
     (case ReadFile path of
        Inl _ \<Rightarrow> False
      | Inr data \<Rightarrow> (case decode data of Inl _ \<Rightarrow> True | Inr _ \<Rightarrow> False))"

definition layered :: "string \<Rightarrow> string option \<Rightarrow> string option \<Rightarrow> string" where
  "layered env override base =
     (if env \<noteq> '''' then env
      else case override of
             Some v \<Rightarrow> v
           | None \<Rightarrow> (case base of Some v \<Rightarrow> v | None \<Rightarrow> ''''))"

section \<open>Clients and startup (jira, github, notion, main.go)\<close>

text \<open>The HTTP client of a Jira client is kept as its timeout, in seconds.\<close>

record JiraClient =
  baseURL :: string
  username :: string
  token :: string
  httpClient :: nat

record GithubClient =
  github_client :: string

record NotionClient =
  notion_client :: string

text \<open>A call either returns or panics; indexing a string out of range panics.\<close>

datatype 'a outcome = Panic string | Return 'a

definition NewJiraClient :: "string \<Rightarrow> string \<Rightarrow> string \<Rightarrow> (error + JiraClient) outcome" where
  "NewJiraClient jiraURL username' token' =
     (if username' = '''' then
        Return (Inl ''username/email is required for Jira authentication'')
      else if token' = '''' then
        Return (Inl ''API token is required for Jira authentication'')
      else
        (let i = int (length jiraURL) - 1 in
         if i < 0 \<or> int (length jiraURL) \<le> i then
           Panic ''runtime error: index out of range [-1]''
         else
           (let jiraURL' = (if jiraURL ! nat i \<noteq> CHR ''/'' then jiraURL @ ''/'' else jiraURL)
            in Return (Inr \<lparr>baseURL = jiraURL', username = username', token = token',
                             httpClient = 30\<rparr>))))"

definition NewGithubClient :: "string \<Rightarrow> GithubClient" where
  "NewGithubClient token' = \<lparr>github_client = token'\<rparr>"

definition NewNotionClient :: "string \<Rightarrow> NotionClient" where
  "NewNotionClient token' = \<lparr>notion_client = token'\<rparr>"

text \<open>
  Everything outside the program that \<^verbatim>\<open>main\<close> touches: the file system, the YAML
  parser, the environment, the two library functions of the loop, the bytes of standard
  input, and what each client's methods do remotely.
\<close>

record 'w platform =
  ReadFile :: "string \<Rightarrow> error + string"
  YamlDecode :: "string \<Rightarrow> error + (string \<Rightarrow> string option)"
  Getenv :: "string \<Rightarrow> string"
  TrimSpace :: "string \<Rightarrow> string"
  JsonUnmarshal :: "string \<Rightarrow> MCPRequest \<Rightarrow> error option \<times> MCPRequest"
  Stdin :: string
  GithubAPI :: "GithubClient \<Rightarrow> github_call \<Rightarrow> 'w \<Rightarrow> (error + string) \<times> 'w"
  JiraAPI :: "JiraClient \<Rightarrow> jira_call \<Rightarrow> 'w \<Rightarrow> (error + string) \<times> 'w"
  NotionAPI :: "NotionClient \<Rightarrow> notion_call \<Rightarrow> 'w \<Rightarrow> (error + string) \<times> 'w"

text \<open>
  How the process ends: \<^verbatim>\<open>log.Fatalf\<close> (exit status 1), a panic (exit status 2), or
  \<^verbatim>\<open>main\<close> returning after \<^verbatim>\<open>Start\<close> has consumed standard input (exit status 0).
\<close>

datatype 'w exit = Fatal string | Panicked string | Exited "'w io"

definition exit_status :: "'w exit \<Rightarrow> int" where
  "exit_status e = (case e of Fatal _ \<Rightarrow> 1 | Panicked _ \<Rightarrow> 2 | Exited _ \<Rightarrow> 0)"

definition main :: "'w platform \<Rightarrow> 'w io \<Rightarrow> 'w exit" where
  "main p \<sigma> =
     (case LoadConfig (ReadFile p) (YamlDecode p) (Getenv p) ''config.yml'' of
        Inl err \<Rightarrow> Fatal (''Error loading config: '' @ err)
      | Inr cfg \<Rightarrow>
          (let githubClient = NewGithubClient (GithubToken cfg) in
           case NewJiraClient (JiraURL cfg) (JiraUsername cfg) (JiraToken cfg) of
             Panic msg \<Rightarrow> Panicked msg
           | Return (Inl err) \<Rightarrow> Fatal (''Error creating Jira client: '' @ err)
           | Return (Inr jiraClient) \<Rightarrow>
               (let notionClient = NewNotionClient (NotionToken cfg);
                    srv = \<lparr>Github = GithubAPI p githubClient,
                           Jira = JiraAPI p jiraClient,
                           Notion = NotionAPI p notionClient\<rparr>
                in Exited (Start (TrimSpace p) (JsonUnmarshal p) srv (scanner_lines [] (Stdin p)) \<sigma>))))"

section \<open>Concrete instances\<close>

text \<open>
  A server whose clients record each call in the remote world and answer \<open>ok\<close>,
  and the empty state of the process.
\<close>

datatype call = GithubCall github_call | JiraCall jira_call | NotionCall notion_call

definition recording_server :: "call list MCPServer" where
  "recording_server =
     \<lparr>Github = (\<lambda>c w. (Inr ''ok'', w @ [GithubCall c])),
      Jira = (\<lambda>c w. (Inr ''ok'', w @ [JiraCall c])),
      Notion = (\<lambda>c w. (Inr ''ok'', w @ [NotionCall c]))\<rparr>"

text \<open>
  \<^verbatim>\<open>strings.TrimSpace\<close> removes the leading and the trailing white space of a string,
  rune by rune. \<open>space_runes\<close> are the UTF-8 encodings of the code points that
  \<^verbatim>\<open>unicode.IsSpace\<close> accepts: U+0009 to U+000D, U+0020, U+0085, U+00A0, U+1680,
  U+2000 to U+200A, U+2028, U+2029, U+202F, U+205F and U+3000. \<open>trim_runes ps\<close> strips
  leading occurrences of the byte sequences \<open>ps\<close>; the trailing side is the leading side
  of the reversed string.
\<close>

definition space_runes :: "string list" where
  "space_runes =
     [[CHR 0x09], [CHR 0x0A], [CHR 0x0B], [CHR 0x0C], [CHR 0x0D], [CHR 0x20],
      [CHR 0xC2, CHR 0x85], [CHR 0xC2, CHR 0xA0],
      [CHR 0xE1, CHR 0x9A, CHR 0x80],
      [CHR 0xE2, CHR 0x80, CHR 0x80], [CHR 0xE2, CHR 0x80, CHR 0x81],
      [CHR 0xE2, CHR 0x80, CHR 0x82], [CHR 0xE2, CHR 0x80, CHR 0x83],
      [CHR 0xE2, CHR 0x80, CHR 0x84], [CHR 0xE2, CHR 0x80, CHR 0x85],
      [CHR 0xE2, CHR 0x80, CHR 0x86], [CHR 0xE2, CHR 0x80, CHR 0x87],
      [CHR 0xE2, CHR 0x80, CHR 0x88], [CHR 0xE2, CHR 0x80, CHR 0x89],
      [CHR 0xE2, CHR 0x80, CHR 0x8A],
      [CHR 0xE2, CHR 0x80, CHR 0xA8], [CHR 0xE2, CHR 0x80, CHR 0xA9],
      [CHR 0xE2, CHR 0x80, CHR 0xAF],
      [CHR 0xE2, CHR 0x81, CHR 0x9F],
      [CHR 0xE3, CHR 0x80, CHR 0x80]]"

fun trim_runes :: "string list \<Rightarrow> string \<Rightarrow> string" where
  "trim_runes ps [] = []"
| "trim_runes ps (c # cs) =
     (case find (\<lambda>p. p \<noteq> [] \<and> take (length p) (c # cs) = p) ps of
        None \<Rightarrow> c # cs
      | Some p \<Rightarrow> trim_runes ps (drop (length p - 1) cs))"

definition strings_TrimSpace :: "string \<Rightarrow> string" where
  "strings_TrimSpace s = rev (trim_runes (map rev space_runes) (rev (trim_runes space_runes s)))"

text \<open>
  What \<^verbatim>\<open>json.Unmarshal\<close> stores in an \<^verbatim>\<open>interface{}\<close> for an integer literal \<open>n\<close>: the
  float64 nearest to \<open>n\<close>, ties to the even significand (\<^verbatim>\<open>strconv.ParseFloat\<close>), which
  is again an integer; \<open>None\<close> when the result is out of the range of a float64, which
  the decoder reports as an error. \<open>bitlen\<close> is the number of binary digits.
\<close>

function bitlen :: "int \<Rightarrow> nat" where
  "bitlen n = (if n \<le> 0 then 0 else Suc (bitlen (n div 2)))"
  by pat_completeness auto
termination
  by (relation "measure nat") auto

declare bitlen.simps [simp del]

definition float64_of_int :: "int \<Rightarrow> int option" where
  "float64_of_int n =
     (let a = \<bar>n\<bar>;
          e = bitlen a - 53;
          q = a div 2 ^ e;
          r = a mod 2 ^ e;
          m = (if 2 ^ e < 2 * r \<or> (2 * r = 2 ^ e \<and> odd q) then q + 1 else q)
      in if 2 ^ 1024 \<le> m * 2 ^ e then None else Some (sgn n * (m * 2 ^ e)))"

text \<open>
  Five request lines and what \<^verbatim>\<open>json.Unmarshal\<close> makes of them; the decoder fails on
  every other line and leaves the request as it was. The id of the fifth line is not
  a float64.
\<close>

definition line_tools_list :: string where
  \<open>line_tools_list = ''{"jsonrpc":"2.0","id":1,"method":"tools/list"}''\<close>

definition line_call_unknown :: string where
  \<open>line_call_unknown =
     ''{"jsonrpc":"2.0","id":2,"method":"tools/call","params":{"name":"no_such_tool"}}''\<close>

definition line_call_nameless :: string where
  \<open>line_call_nameless =
     ''{"jsonrpc":"2.0","id":3,"method":"tools/call","params":{"arguments":{}}}''\<close>

definition line_call_pull_request :: string where
  \<open>line_call_pull_request =
     ''{"jsonrpc":"2.0","id":4,"method":"tools/call","params":{"name":"github_get_pull_request","arguments":{"owner":"o","repo":7}}}''\<close>

definition line_large_id :: string where
  \<open>line_large_id = ''{"jsonrpc":"2.0","id":9007199254740993,"method":"tools/list"}''\<close>

definition Unmarshal_lines :: "string \<Rightarrow> MCPRequest \<Rightarrow> error option \<times> MCPRequest" where
  "Unmarshal_lines line r =
     (if line = line_tools_list then
        (None, r\<lparr>JSONRPC := ''2.0'', ID := VFloat64 1, Method := ''tools/list''\<rparr>)
      else if line = line_call_unknown then
        (None, r\<lparr>JSONRPC := ''2.0'', ID := VFloat64 2, Method := ''tools/call'',
                  Params := VMap [(''name'', VString ''no_such_tool'')]\<rparr>)
      else if line = line_call_nameless then
        (None, r\<lparr>JSONRPC := ''2.0'', ID := VFloat64 3, Method := ''tools/call'',
                  Params := VMap [(''arguments'', VMap [])]\<rparr>)
      else if line = line_call_pull_request then
        (None, r\<lparr>JSONRPC := ''2.0'', ID := VFloat64 4, Method := ''tools/call'',
                  Params := VMap [(''name'', VString ''github_get_pull_request''),
                                  (''arguments'', VMap [(''owner'', VString ''o''),
                                                        (''repo'', VFloat64 7)])]\<rparr>)
      else if line = line_large_id then
        (case float64_of_int 9007199254740993 of
           Some f \<Rightarrow>
             (None, r\<lparr>JSONRPC := ''2.0'', ID := VFloat64 (of_int f), Method := ''tools/list''\<rparr>)
         | None \<Rightarrow> (Some ''json: cannot unmarshal number into Go value'', r))
      else (Some ''invalid character'', r))"

definition io0 :: "call list io" where
  "io0 = \<lparr>stdout = [], remote = []\<rparr>"


text \<open>
  A platform whose only file is \<^verbatim>\<open>config.yml\<close>, decoded to \<open>doc\<close>, with an empty
  environment, the recording clients and \<open>lines\<close>, each ended by a newline, on standard
  input; three documents (all Jira credentials, no Jira URL, no Jira token); a platform
  whose \<^verbatim>\<open>config.yml\<close> does not parse while the environment holds all three Jira
  credentials; and a line of 65536 bytes.
\<close>

definition platform_of :: "(string \<Rightarrow> string option) \<Rightarrow> string list \<Rightarrow> call list platform" where
  "platform_of doc lines =
     \<lparr>ReadFile = (\<lambda>path. if path = ''config.yml'' then Inr ''config''
                          else Inl ''no such file or directory''),
      YamlDecode = (\<lambda>data. Inr doc),
      Getenv = (\<lambda>name. ''''),
      TrimSpace = strings_TrimSpace,
      JsonUnmarshal = Unmarshal_lines,
      Stdin = concat (map (\<lambda>l. l @ [CHR 0x0A]) lines),
      GithubAPI = (\<lambda>c. Github recording_server),
      JiraAPI = (\<lambda>c. Jira recording_server),
      NotionAPI = (\<lambda>c. Notion recording_server)\<rparr>"

definition doc_jira :: "string \<Rightarrow> string option" where
  "doc_jira =
     [''jira_url'' \<mapsto> ''https://example.atlassian.net'', ''jira_username'' \<mapsto> ''user'',
      ''jira_token'' \<mapsto> ''secret'']"

definition doc_no_url :: "string \<Rightarrow> string option" where
  "doc_no_url = [''jira_username'' \<mapsto> ''user'', ''jira_token'' \<mapsto> ''secret'']"

definition doc_no_token :: "string \<Rightarrow> string option" where
  "doc_no_token =
     [''jira_url'' \<mapsto> ''https://example.atlassian.net'', ''jira_username'' \<mapsto> ''user'']"

definition platform_unparsable :: "string list \<Rightarrow> call list platform" where
  "platform_unparsable lines =
     \<lparr>ReadFile = (\<lambda>path. if path = ''config.yml'' then Inr ''jira_url: [''
                          else Inl ''no such file or directory''),
      YamlDecode = (\<lambda>data. Inl ''yaml: line 1: did not find expected node content''),
      Getenv = (\<lambda>name. if name = ''JIRA_URL'' then ''https://example.atlassian.net''
                        else if name = ''JIRA_USERNAME'' then ''user''
                        else if name = ''JIRA_TOKEN'' then ''secret'' else ''''),
      TrimSpace = strings_TrimSpace,
      JsonUnmarshal = Unmarshal_lines,
      Stdin = concat (map (\<lambda>l. l @ [CHR 0x0A]) lines),
      GithubAPI = (\<lambda>c. Github recording_server),
      JiraAPI = (\<lambda>c. Jira recording_server),
      NotionAPI = (\<lambda>c. Notion recording_server)\<rparr>"

definition line_too_long :: string where
  "line_too_long = replicate 65536 (CHR ''a'')"


section \<open>Declared argument types and the arguments of a call\<close>


















section \<open>Basic facts\<close>

lemma sendJSON_stdout [simp]: "stdout (sendJSON v \<sigma>) = stdout \<sigma> @ [v]"
  by (simp add: sendJSON_def)

lemma sendJSON_remote [simp]: "remote (sendJSON v \<sigma>) = remote \<sigma>"
  by (simp add: sendJSON_def)

lemma Start_append:
  "Start T U s (xs @ ys) \<sigma> = Start T U s ys (Start T U s xs \<sigma>)"
  by (induction xs arbitrary: \<sigma>) (auto split: prod.splits option.splits)

lemma handleToolCall_emits:
  "\<exists>r. stdout (handleToolCall s request \<sigma>) = stdout \<sigma> @ [r] \<and> RespID r = ID request
       \<and> (Result r = None) \<noteq> (Error r = None)"
  by (auto simp: handleToolCall_def sendResponse_def sendError_def Let_def
      split: prod.splits bool.splits sum.splits)

lemma handleRequest_emits:
  "\<exists>r. stdout (handleRequest s request \<sigma>) = stdout \<sigma> @ [r] \<and> RespID r = ID request
       \<and> (Result r = None) \<noteq> (Error r = None)"
  using handleToolCall_emits [of s request \<sigma>]
  by (auto simp: handleRequest_def handleInitialize_def handleToolsList_def sendResponse_def
      sendError_def Let_def)

lemma Start_line_emits:
  assumes "T line \<noteq> ''''"
  shows "\<exists>r. stdout (Start T U s [line] \<sigma>) = stdout \<sigma> @ [r]
           \<and> RespID r = ID (snd (U line zero_request))
           \<and> (Result r = None) \<noteq> (Error r = None)"
proof (cases "U line zero_request")
  case (Pair e request)
  show ?thesis
  proof (cases e)
    case None
    with Pair assms handleRequest_emits [of s request \<sigma>] show ?thesis by auto
  next
    case (Some err)
    with Pair assms show ?thesis by (simp add: sendError_def)
  qed
qed

lemma Start_emits:
  "\<exists>rs. stdout (Start T U s lines \<sigma>) = stdout \<sigma> @ rs
        \<and> (\<forall>r\<in>set rs. (Result r = None) \<noteq> (Error r = None))"
proof (induction lines arbitrary: \<sigma>)
  case Nil
  show ?case by simp
next
  case (Cons line rest)
  show ?case
  proof (cases "T line = ''''")
    case True
    with Cons.IH [of \<sigma>] show ?thesis by simp
  next
    case False
    from False Start_line_emits [of T line U s \<sigma>] obtain r where
      r: "stdout (Start T U s [line] \<sigma>) = stdout \<sigma> @ [r]" "(Result r = None) \<noteq> (Error r = None)"
      by blast
    from Cons.IH [of "Start T U s [line] \<sigma>"] obtain rs where
      rs: "stdout (Start T U s rest (Start T U s [line] \<sigma>)) = stdout (Start T U s [line] \<sigma>) @ rs"
        "\<forall>r\<in>set rs. (Result r = None) \<noteq> (Error r = None)"
      by blast
    have "Start T U s (line # rest) \<sigma> = Start T U s rest (Start T U s [line] \<sigma>)"
      using Start_append [of T U s "[line]" rest \<sigma>] by simp
    with r rs have "stdout (Start T U s (line # rest) \<sigma>) = stdout \<sigma> @ (r # rs)"
      "\<forall>x\<in>set (r # rs). (Result x = None) \<noteq> (Error x = None)"
      by auto
    then show ?thesis by blast
  qed
qed


lemma trim_runes_none:
  "find (\<lambda>p. p \<noteq> [] \<and> take (length p) s = p) ps = None \<Longrightarrow> trim_runes ps s = s"
  by (cases s) simp_all

lemma scanner_line:
  "CHR 0x0A \<notin> set l \<Longrightarrow> length acc + length l < MaxScanTokenSize \<Longrightarrow>
   scanner_lines acc (l @ CHR 0x0A # rest) = dropCR (acc @ l) # scanner_lines [] rest"
  by (induction l arbitrary: acc) auto

lemma scanner_long:
  "CHR 0x0A \<notin> set l \<Longrightarrow> MaxScanTokenSize \<le> length acc + length l \<Longrightarrow>
   length acc < MaxScanTokenSize \<Longrightarrow> scanner_lines acc (l @ rest) = []"
  by (induction l arbitrary: acc) auto

lemma scanner_fragment:
  "CHR 0x0A \<notin> set l \<Longrightarrow> length acc + length l < MaxScanTokenSize \<Longrightarrow>
   scanner_lines acc l = (if acc @ l = [] then [] else [dropCR (acc @ l)])"
  by (induction l arbitrary: acc) auto

lemma scanner_lines_input:
  assumes "\<forall>l\<in>set (frag # ls). CHR 0x0A \<notin> set l"
  shows "scanner_lines [] (concat (map (\<lambda>l. l @ [CHR 0x0A]) ls) @ frag) =
     map dropCR (takeWhile (\<lambda>l. length l < MaxScanTokenSize)
       (ls @ (if frag = [] then [] else [frag])))"
  using assms
proof (induction ls)
  case Nil
  have pos: "0 < MaxScanTokenSize" by (simp add: MaxScanTokenSize_def)
  show ?case
  proof (cases "length frag < MaxScanTokenSize")
    case True
    with Nil scanner_fragment [of frag "[]"] show ?thesis by simp
  next
    case False
    with Nil pos scanner_long [of frag "[]" "[]"] show ?thesis by auto
  qed
next
  case (Cons l ls)
  have pos: "0 < MaxScanTokenSize" by (simp add: MaxScanTokenSize_def)
  show ?case
  proof (cases "length l < MaxScanTokenSize")
    case True
    with Cons scanner_line [of l "[]" "concat (map (\<lambda>l. l @ [CHR 0x0A]) ls) @ frag"]
    show ?thesis by simp
  next
    case False
    with Cons pos scanner_long [of l "[]" "CHR 0x0A # concat (map (\<lambda>l. l @ [CHR 0x0A]) ls) @ frag"]
    show ?thesis by simp
  qed
qed


section \<open>Facts about the catalog and the dispatch\<close>

lemma tool_names: "map Name getAvailableTools =
  [''github_get_pull_request'', ''github_get_pull_request_diff'', ''github_create_issue'',
   ''github_create_pull_request'', ''github_get_issue'', ''github_list_branches'',
   ''github_list_commits'', ''github_search_repositories'', ''github_search_issues'',
   ''github_get_workflows'', ''github_run_workflow'', ''github_add_comment'',
   ''github_get_comments'', ''github_assign_copilot'', ''github_create_branch'',
   ''github_create_repository'', ''github_get_commit'', ''github_get_release_by_tag'',
   ''github_get_tag'', ''github_search_code'', ''github_search_pull_requests'',
   ''jira_get_ticket'', ''jira_search_tickets'', ''jira_create_ticket'',
   ''notion_search_pages'', ''notion_get_page'', ''notion_get_database'',
   ''notion_create_page'', ''notion_create_database'', ''notion_update_page'',
   ''notion_update_database'']"
  by (simp add: getAvailableTools_def)

lemma executeTool_unknown:
  "name \<notin> set (map Name getAvailableTools) \<Longrightarrow>
   executeTool s name args w = (Inl (''unknown tool: '' @ name), w)"
  by (simp add: tool_names executeTool_def)






section \<open>Configuration and startup\<close>

lemma load_layer:
  assumes "\<not> decode_fails R D path"
  shows "(case R path of Inr data \<Rightarrow> yaml_Unmarshal D data cfg | Inl _ \<Rightarrow> Inr cfg) =
     Inr \<lparr>NotionToken = (case file_value R D path ''notion_token'' of Some v \<Rightarrow> v | None \<Rightarrow> NotionToken cfg),
          GithubToken = (case file_value R D path ''github_token'' of Some v \<Rightarrow> v | None \<Rightarrow> GithubToken cfg),
          JiraToken = (case file_value R D path ''jira_token'' of Some v \<Rightarrow> v | None \<Rightarrow> JiraToken cfg),
          JiraURL = (case file_value R D path ''jira_url'' of Some v \<Rightarrow> v | None \<Rightarrow> JiraURL cfg),
          JiraUsername = (case file_value R D path ''jira_username'' of Some v \<Rightarrow> v | None \<Rightarrow> JiraUsername cfg)\<rparr>"
proof (cases "R path")
  case (Inl e)
  then show ?thesis by (simp add: file_value_def)
next
  case (Inr data)
  with assms obtain doc where "D data = Inr doc"
    by (cases "D data") (auto simp: decode_fails_def)
  with Inr show ?thesis by (simp add: file_value_def yaml_Unmarshal_def)
qed

text \<open>
  C8. When no readable file fails to decode, \<^verbatim>\<open>LoadConfig\<close> succeeds and each of the
  five fields is the layered value: the environment variable if it is non-empty, else
  what \<^verbatim>\<open>local.yml\<close> assigns, else what the base file assigns, else the empty string.
  In particular a field that no layer gives is the empty string, and that is no error.
\<close>

theorem LoadConfig_layered:
  assumes "\<not> decode_fails R D path" and "\<not> decode_fails R D ''local.yml''"
  shows "LoadConfig R D G path =
     Inr \<lparr>NotionToken = layered (G ''NOTION_TOKEN'') (file_value R D ''local.yml'' ''notion_token'')
                            (file_value R D path ''notion_token''),
          GithubToken = layered (G ''GITHUB_TOKEN'') (file_value R D ''local.yml'' ''github_token'')
                            (file_value R D path ''github_token''),
          JiraToken = layered (G ''JIRA_TOKEN'') (file_value R D ''local.yml'' ''jira_token'')
                            (file_value R D path ''jira_token''),
          JiraURL = layered (G ''JIRA_URL'') (file_value R D ''local.yml'' ''jira_url'')
                            (file_value R D path ''jira_url''),
          JiraUsername = layered (G ''JIRA_USERNAME'') (file_value R D ''local.yml'' ''jira_username'')
                            (file_value R D path ''jira_username'')\<rparr>
     \<and> layered '''' None None = ''''"
proof -
  define n where "n = layered '''' (file_value R D ''local.yml'' ''notion_token'') (file_value R D path ''notion_token'')"
  define g where "g = layered '''' (file_value R D ''local.yml'' ''github_token'') (file_value R D path ''github_token'')"
  define t where "t = layered '''' (file_value R D ''local.yml'' ''jira_token'') (file_value R D path ''jira_token'')"
  define u where "u = layered '''' (file_value R D ''local.yml'' ''jira_url'') (file_value R D path ''jira_url'')"
  define m where "m = layered '''' (file_value R D ''local.yml'' ''jira_username'') (file_value R D path ''jira_username'')"
  have lay: "layered e l b = (if e \<noteq> '''' then e else layered '''' l b)" for e l b
    by (simp add: layered_def)
  note l1 = load_layer [OF assms(1), of zero_Config]
  have l2: "(case R ''local.yml'' of
               Inr data \<Rightarrow> yaml_Unmarshal D data cfg1
             | Inl _ \<Rightarrow> Inr cfg1) =
            Inr \<lparr>NotionToken = n, GithubToken = g, JiraToken = t, JiraURL = u, JiraUsername = m\<rparr>"
    if "cfg1 =
          \<lparr>NotionToken = (case file_value R D path ''notion_token'' of Some v \<Rightarrow> v | None \<Rightarrow> NotionToken zero_Config),
           GithubToken = (case file_value R D path ''github_token'' of Some v \<Rightarrow> v | None \<Rightarrow> GithubToken zero_Config),
           JiraToken = (case file_value R D path ''jira_token'' of Some v \<Rightarrow> v | None \<Rightarrow> JiraToken zero_Config),
           JiraURL = (case file_value R D path ''jira_url'' of Some v \<Rightarrow> v | None \<Rightarrow> JiraURL zero_Config),
           JiraUsername = (case file_value R D path ''jira_username'' of Some v \<Rightarrow> v | None \<Rightarrow> JiraUsername zero_Config)\<rparr>"
    for cfg1
    unfolding load_layer [OF assms(2), of cfg1]
    unfolding that n_def g_def t_def u_def m_def
    by (simp add: layered_def zero_Config_def cong: option.case_cong)
  have "LoadConfig R D G path =
     Inr \<lparr>NotionToken = (if G ''NOTION_TOKEN'' \<noteq> '''' then G ''NOTION_TOKEN'' else n),
          GithubToken = (if G ''GITHUB_TOKEN'' \<noteq> '''' then G ''GITHUB_TOKEN'' else g),
          JiraToken = (if G ''JIRA_TOKEN'' \<noteq> '''' then G ''JIRA_TOKEN'' else t),
          JiraURL = (if G ''JIRA_URL'' \<noteq> '''' then G ''JIRA_URL'' else u),
          JiraUsername = (if G ''JIRA_USERNAME'' \<noteq> '''' then G ''JIRA_USERNAME'' else m)\<rparr>"
    unfolding LoadConfig_def l1 sum.case Let_def l2 [OF refl]
    by simp
  then show ?thesis
    unfolding n_def g_def t_def u_def m_def lay [of "G x" for x]
    by (simp add: layered_def)
qed

text \<open>
  An instance: the base file gives a Jira URL and a Notion token, \<^verbatim>\<open>local.yml\<close> gives
  another Jira URL, the environment gives a third Jira URL and a GitHub token. The
  environment's URL wins, the Notion token comes from the base file, and the fields no
  layer gives are empty.
\<close>

theorem LoadConfig_layered_witness:
  "LoadConfig
     (\<lambda>path. if path = ''config.yml'' then Inr ''base''
              else if path = ''local.yml'' then Inr ''local'' else Inl ''no such file'')
     (\<lambda>data. if data = ''base'' then Inr [''jira_url'' \<mapsto> ''https://base/'', ''notion_token'' \<mapsto> ''n'']
              else Inr [''jira_url'' \<mapsto> ''https://local/''])
     (\<lambda>name. if name = ''JIRA_URL'' then ''https://env/''
              else if name = ''GITHUB_TOKEN'' then ''g'' else '''')
     ''config.yml'' =
   Inr \<lparr>NotionToken = ''n'', GithubToken = ''g'', JiraToken = '''', JiraURL = ''https://env/'',
        JiraUsername = ''''\<rparr>"
  using LoadConfig_layered [of
     "\<lambda>path. if path = ''config.yml'' then Inr ''base''
              else if path = ''local.yml'' then Inr ''local'' else Inl ''no such file''"
     "\<lambda>data. if data = ''base'' then Inr [''jira_url'' \<mapsto> ''https://base/'', ''notion_token'' \<mapsto> ''n'']
              else Inr [''jira_url'' \<mapsto> ''https://local/'']"
     "''config.yml''"
     "\<lambda>name. if name = ''JIRA_URL'' then ''https://env/''
              else if name = ''GITHUB_TOKEN'' then ''g'' else ''''"]
  by (simp add: decode_fails_def file_value_def layered_def)

lemma LoadConfig_platform:
  "LoadConfig (ReadFile (platform_of doc lines)) (YamlDecode (platform_of doc lines))
     (Getenv (platform_of doc lines)) ''config.yml'' =
   Inr \<lparr>NotionToken = (case doc ''notion_token'' of Some v \<Rightarrow> v | None \<Rightarrow> ''''),
        GithubToken = (case doc ''github_token'' of Some v \<Rightarrow> v | None \<Rightarrow> ''''),
        JiraToken = (case doc ''jira_token'' of Some v \<Rightarrow> v | None \<Rightarrow> ''''),
        JiraURL = (case doc ''jira_url'' of Some v \<Rightarrow> v | None \<Rightarrow> ''''),
        JiraUsername = (case doc ''jira_username'' of Some v \<Rightarrow> v | None \<Rightarrow> '''')\<rparr>"
  by (simp add: LoadConfig_def platform_of_def yaml_Unmarshal_def zero_Config_def
      split: option.splits)

lemma platform_of_sel:
  "TrimSpace (platform_of doc lines) = strings_TrimSpace"
  "JsonUnmarshal (platform_of doc lines) = Unmarshal_lines"
  "Stdin (platform_of doc lines) = concat (map (\<lambda>l. l @ [CHR 0x0A]) lines)"
  by (simp_all add: platform_of_def)

lemma line_tools_list_facts:
  "strings_TrimSpace line_tools_list \<noteq> ''''"
  "Unmarshal_lines line_tools_list zero_request =
     (None, \<lparr>JSONRPC = ''2.0'', ID = VFloat64 1, Method = ''tools/list'', Params = VNil\<rparr>)"
  by (simp_all add: strings_TrimSpace_def space_runes_def line_tools_list_def
      Unmarshal_lines_def zero_request_def)

lemma line_tools_list_no_newline:
  "CHR 0x0A \<notin> set line_tools_list" "length line_tools_list < MaxScanTokenSize"
  "dropCR line_tools_list = line_tools_list"
  by (simp_all add: line_tools_list_def MaxScanTokenSize_def dropCR_def)

lemma line_too_long_facts:
  "CHR 0x0A \<notin> set line_too_long" "\<not> length line_too_long < MaxScanTokenSize"
  by (simp_all add: line_too_long_def MaxScanTokenSize_def)

lemma scanner_newline_ended:
  assumes "\<forall>l\<in>set ls. CHR 0x0A \<notin> set l"
  shows "scanner_lines [] (concat (map (\<lambda>l. l @ [CHR 0x0A]) ls)) =
     map dropCR (takeWhile (\<lambda>l. length l < MaxScanTokenSize) ls)"
  using assms scanner_lines_input [of "[]" ls] by simp

lemma main_after_load:
  assumes "LoadConfig (ReadFile p) (YamlDecode p) (Getenv p) ''config.yml'' = Inr cfg"
  shows "(JiraURL cfg = '''' \<or> JiraUsername cfg = '''' \<or> JiraToken cfg = '''' \<longrightarrow>
            exit_status (main p \<sigma>) \<noteq> 0 \<and> (\<forall>\<sigma>'. main p \<sigma> \<noteq> Exited \<sigma>'))
       \<and> (JiraURL cfg \<noteq> '''' \<and> JiraUsername cfg \<noteq> '''' \<and> JiraToken cfg \<noteq> '''' \<longrightarrow>
            exit_status (main p \<sigma>) = 0 \<and>
            (\<exists>jiraClient.
               NewJiraClient (JiraURL cfg) (JiraUsername cfg) (JiraToken cfg) = Return (Inr jiraClient) \<and>
               main p \<sigma> =
                 Exited (Start (TrimSpace p) (JsonUnmarshal p)
                   \<lparr>Github = GithubAPI p (NewGithubClient (GithubToken cfg)),
                    Jira = JiraAPI p jiraClient,
                    Notion = NotionAPI p (NewNotionClient (NotionToken cfg))\<rparr>
                   (scanner_lines [] (Stdin p)) \<sigma>)))"
  using assms
  by (auto simp: main_def NewJiraClient_def exit_status_def Let_def)

text \<open>
  C9, as the specification states it, is false in both halves. With a \<^verbatim>\<open>config.yml\<close>
  that does not parse, the process exits fatally although the environment holds every
  Jira credential, so no credential is missing. And with all credentials in place, a
  first input line of 65536 bytes ends the loop: the process exits without answering
  the request on the second line, before standard input is at its end.
\<close>

theorem startup_counterexample:
  "main (platform_unparsable [line_tools_list]) io0 =
     Fatal ''Error loading config: yaml: line 1: did not find expected node content''
   \<and> Getenv (platform_unparsable [line_tools_list]) ''JIRA_URL'' = ''https://example.atlassian.net''
   \<and> Getenv (platform_unparsable [line_tools_list]) ''JIRA_USERNAME'' = ''user''
   \<and> Getenv (platform_unparsable [line_tools_list]) ''JIRA_TOKEN'' = ''secret''
   \<and> main (platform_of doc_jira [line_too_long, line_tools_list]) io0 = Exited io0"
proof -
  have "main (platform_unparsable [line_tools_list]) io0 =
     Fatal ''Error loading config: yaml: line 1: did not find expected node content''"
    by (simp add: main_def LoadConfig_def platform_unparsable_def yaml_Unmarshal_def)
  moreover have "scanner_lines [] (Stdin (platform_of doc_jira [line_too_long, line_tools_list])) = []"
    unfolding platform_of_sel
    by (subst scanner_newline_ended)
      (simp_all add: line_too_long_facts line_tools_list_no_newline)
  then have "main (platform_of doc_jira [line_too_long, line_tools_list]) io0 = Exited io0"
    using main_after_load [OF LoadConfig_platform, of doc_jira "[line_too_long, line_tools_list]" io0]
    by (auto simp: doc_jira_def)
  ultimately show ?thesis
    by (simp add: platform_unparsable_def)
qed

text \<open>
  C9, amended. At startup the process exits with a non-zero status when the
  configuration cannot be loaded (a configuration file that can be read does not
  parse), and when the loaded Jira URL, Jira user name or Jira token is empty (through
  \<^verbatim>\<open>log.Fatalf\<close> for the user name and the token, through the panic of C10 for the URL);
  in these cases it never serves. Otherwise startup succeeds: the process builds the
  three clients, runs the loop over the lines the scanner yields and exits with status
  0. The scanner yields the lines of standard input, without their line ends, up to the
  end of the input or up to the first line of 65536 bytes or more, whichever comes
  first. The GitHub and Notion tokens are not checked at startup.
\<close>

theorem main_startup:
  "(\<forall>err. LoadConfig (ReadFile p) (YamlDecode p) (Getenv p) ''config.yml'' = Inl err \<longrightarrow>
      main p \<sigma> = Fatal (''Error loading config: '' @ err) \<and> exit_status (main p \<sigma>) = 1)
   \<and> (\<forall>cfg. LoadConfig (ReadFile p) (YamlDecode p) (Getenv p) ''config.yml'' = Inr cfg \<longrightarrow>
        (JiraURL cfg = '''' \<or> JiraUsername cfg = '''' \<or> JiraToken cfg = '''' \<longrightarrow>
            exit_status (main p \<sigma>) \<noteq> 0 \<and> (\<forall>\<sigma>'. main p \<sigma> \<noteq> Exited \<sigma>'))
       \<and> (JiraURL cfg \<noteq> '''' \<and> JiraUsername cfg \<noteq> '''' \<and> JiraToken cfg \<noteq> '''' \<longrightarrow>
            exit_status (main p \<sigma>) = 0 \<and>
            (\<exists>jiraClient.
               NewJiraClient (JiraURL cfg) (JiraUsername cfg) (JiraToken cfg) = Return (Inr jiraClient) \<and>
               main p \<sigma> =
                 Exited (Start (TrimSpace p) (JsonUnmarshal p)
                   \<lparr>Github = GithubAPI p (NewGithubClient (GithubToken cfg)),
                    Jira = JiraAPI p jiraClient,
                    Notion = NotionAPI p (NewNotionClient (NotionToken cfg))\<rparr>
                   (scanner_lines [] (Stdin p)) \<sigma>))))
   \<and> (\<forall>ls frag. (\<forall>l\<in>set (frag # ls). CHR 0x0A \<notin> set l)
          \<and> Stdin p = concat (map (\<lambda>l. l @ [CHR 0x0A]) ls) @ frag \<longrightarrow>
        scanner_lines [] (Stdin p) =
          map dropCR (takeWhile (\<lambda>l. length l < 65536) (ls @ (if frag = [] then [] else [frag]))))"
proof (intro conjI allI impI)
  fix err
  assume "LoadConfig (ReadFile p) (YamlDecode p) (Getenv p) ''config.yml'' = Inl err"
  then show "main p \<sigma> = Fatal (''Error loading config: '' @ err)"
    and "exit_status (main p \<sigma>) = 1"
    by (simp_all add: main_def exit_status_def)
next
  fix ls frag
  assume "(\<forall>l\<in>set (frag # ls). CHR 0x0A \<notin> set l)
          \<and> Stdin p = concat (map (\<lambda>l. l @ [CHR 0x0A]) ls) @ frag"
  then show "scanner_lines [] (Stdin p) =
          map dropCR (takeWhile (\<lambda>l. length l < 65536) (ls @ (if frag = [] then [] else [frag])))"
    using scanner_lines_input [of frag ls] by (simp add: MaxScanTokenSize_def)
qed (use main_after_load [of p _ \<sigma>] in blast)+

text \<open>
  Four runs: with a configuration that does not parse, and without a Jira token, the
  process exits with status 1 before serving; with all three Jira credentials (and no
  GitHub or Notion token) it serves the one request on standard input and exits with
  status 0; and of three input lines whose second has 65536 bytes the scanner yields
  the first only.
\<close>

theorem main_startup_witness:
  "exit_status (main (platform_unparsable [line_tools_list]) io0) = 1
   \<and> exit_status (main (platform_of doc_no_token [line_tools_list]) io0) = 1
   \<and> exit_status (main (platform_of doc_jira [line_tools_list]) io0) = 0
   \<and> (\<exists>\<sigma>'. main (platform_of doc_jira [line_tools_list]) io0 = Exited \<sigma>'
         \<and> map RespID (stdout \<sigma>') = [VFloat64 1])
   \<and> scanner_lines [] (Stdin (platform_of doc_jira [line_tools_list, line_too_long, line_tools_list])) =
       [line_tools_list]"
proof -
  note m = main_startup [of "platform_of doc_jira [line_tools_list]" io0]
  have l: "LoadConfig (ReadFile (platform_unparsable [line_tools_list]))
      (YamlDecode (platform_unparsable [line_tools_list]))
      (Getenv (platform_unparsable [line_tools_list])) ''config.yml'' =
      Inl ''yaml: line 1: did not find expected node content''"
    by (simp add: LoadConfig_def platform_unparsable_def yaml_Unmarshal_def)
  have "exit_status (main (platform_unparsable [line_tools_list]) io0) = 1"
    using main_startup [of "platform_unparsable [line_tools_list]" io0] l by blast
  moreover have "exit_status (main (platform_of doc_no_token [line_tools_list]) io0) \<noteq> 0"
    using main_startup [of "platform_of doc_no_token [line_tools_list]" io0]
      LoadConfig_platform [of doc_no_token "[line_tools_list]"]
    by (simp add: doc_no_token_def)
  then have "exit_status (main (platform_of doc_no_token [line_tools_list]) io0) = 1"
    by (simp add: main_def LoadConfig_platform doc_no_token_def NewJiraClient_def
        exit_status_def)
  moreover have s1: "scanner_lines [] (Stdin (platform_of doc_jira [line_tools_list])) =
      [line_tools_list]"
    unfolding platform_of_sel
    by (subst scanner_newline_ended) (simp_all add: line_tools_list_no_newline)
  note m2 = conjunct1 [OF conjunct2 [OF m], rule_format,
      OF LoadConfig_platform [of doc_jira "[line_tools_list]"]]
  from m2 have e: "exit_status (main (platform_of doc_jira [line_tools_list]) io0) = 0"
    by (simp add: doc_jira_def)
  from m2 obtain srv where
    "main (platform_of doc_jira [line_tools_list]) io0 =
       Exited (Start (TrimSpace (platform_of doc_jira [line_tools_list]))
         (JsonUnmarshal (platform_of doc_jira [line_tools_list])) srv
         (scanner_lines [] (Stdin (platform_of doc_jira [line_tools_list]))) io0)"
    by (auto simp: doc_jira_def)
  then have "\<exists>\<sigma>'. main (platform_of doc_jira [line_tools_list]) io0 = Exited \<sigma>'
         \<and> map RespID (stdout \<sigma>') = [VFloat64 1]"
    unfolding s1
    by (simp add: platform_of_sel line_tools_list_facts handleRequest_def
        handleToolsList_def sendResponse_def io0_def)
  note e this
  moreover have "scanner_lines []
      (Stdin (platform_of doc_jira [line_tools_list, line_too_long, line_tools_list])) =
       [line_tools_list]"
    unfolding platform_of_sel
    by (subst scanner_newline_ended)
      (simp_all add: line_too_long_facts line_tools_list_no_newline)
  ultimately show ?thesis by blast
qed

text \<open>
  C10. With a non-empty user name and token and the empty string as URL,
  \<^verbatim>\<open>NewJiraClient\<close> reaches \<^verbatim>\<open>jiraURL[len(jiraURL)-1]\<close>, which is index \<open>-1\<close>: the call
  panics and returns neither a client nor an error value. In \<^verbatim>\<open>main\<close> the panic ends
  the process; it is not the \<^verbatim>\<open>log.Fatalf\<close> path.
\<close>

theorem NewJiraClient_empty_url_panics:
  assumes "u \<noteq> ''''" and "t \<noteq> ''''"
  shows "NewJiraClient '''' u t = Panic ''runtime error: index out of range [-1]''
       \<and> (LoadConfig (ReadFile p) (YamlDecode p) (Getenv p) ''config.yml'' =
            Inr \<lparr>NotionToken = n, GithubToken = g, JiraToken = t, JiraURL = '''', JiraUsername = u\<rparr>
          \<longrightarrow> main p \<sigma> = Panicked ''runtime error: index out of range [-1]'')"
  using assms by (simp add: NewJiraClient_def main_def Let_def)

theorem NewJiraClient_empty_url_panics_witness:
  "NewJiraClient '''' ''user'' ''secret'' = Panic ''runtime error: index out of range [-1]''
   \<and> main (platform_of doc_no_url [line_tools_list]) io0 =
       Panicked ''runtime error: index out of range [-1]''"
  using NewJiraClient_empty_url_panics [of "''user''" "''secret''"
      "platform_of doc_no_url [line_tools_list]" "''''" "''''" io0]
    LoadConfig_platform [of doc_no_url "[line_tools_list]"]
  by (simp add: doc_no_url_def)


section \<open>The dispatcher's answers to \<^verbatim>\<open>tools/call\<close>\<close>

text \<open>
  C1, as the specification states it, is false: for the request
  \<^verbatim>\<open>{"id":2,"method":"tools/call","params":{"name":"no_such_tool"}}\<close> the response is not
  the success envelope whose single error-flagged block has the text
  \<^verbatim>\<open>unknown tool: no_such_tool\<close>.
\<close>

theorem unknown_tool_text_counterexample:
  "stdout (handleRequest recording_server
      \<lparr>JSONRPC = ''2.0'', ID = VFloat64 2, Method = ''tools/call'',
       Params = VMap [(''name'', VString ''no_such_tool'')]\<rparr> io0) \<noteq>
   [\<lparr>RespJSONRPC = ''2.0'', RespID = VFloat64 2,
     Result = Some (ToolCallResult
       \<lparr>Content = [\<lparr>Type = ''text'', Text = ''unknown tool: no_such_tool''\<rparr>], IsError = True\<rparr>),
     Error = None\<rparr>]"
  by (simp add: handleRequest_def handleToolCall_def assert_map_def assert_string_def
      map_index_def executeTool_def sendResponse_def io0_def)

text \<open>
  C1, amended. For every \<^verbatim>\<open>tools/call\<close> request whose params are a map naming (by a
  string) a tool that is not in the catalog, the dispatcher sends exactly one response:
  a success envelope (no error member) whose result is a single content block of type
  \<^verbatim>\<open>text\<close>, flagged as an error, with the text \<^verbatim>\<open>Error: unknown tool: <name>\<close>. No
  client is called.
\<close>

theorem unknown_tool_response:
  assumes "Method request = ''tools/call''"
    and "Params request = VMap params"
    and "map_of params ''name'' = Some (VString name)"
    and "name \<notin> set (map Name getAvailableTools)"
  shows "handleRequest s request \<sigma> =
     \<sigma>\<lparr>stdout := stdout \<sigma> @
       [\<lparr>RespJSONRPC = ''2.0'', RespID = ID request,
         Result = Some (ToolCallResult
           \<lparr>Content = [\<lparr>Type = ''text'', Text = ''Error: unknown tool: '' @ name\<rparr>],
            IsError = True\<rparr>),
         Error = None\<rparr>]\<rparr>"
  using assms
  by (simp add: handleRequest_def handleToolCall_def assert_map_def assert_string_def
      map_index_def executeTool_unknown sendResponse_def sendJSON_def)

theorem unknown_tool_response_witness:
  "handleRequest recording_server
      \<lparr>JSONRPC = ''2.0'', ID = VFloat64 2, Method = ''tools/call'',
       Params = VMap [(''name'', VString ''no_such_tool'')]\<rparr> io0 =
   \<lparr>stdout =
      [\<lparr>RespJSONRPC = ''2.0'', RespID = VFloat64 2,
        Result = Some (ToolCallResult
          \<lparr>Content = [\<lparr>Type = ''text'', Text = ''Error: unknown tool: no_such_tool''\<rparr>],
           IsError = True\<rparr>),
        Error = None\<rparr>],
    remote = []\<rparr>"
  using unknown_tool_response [of
      "\<lparr>JSONRPC = ''2.0'', ID = VFloat64 2, Method = ''tools/call'',
        Params = VMap [(''name'', VString ''no_such_tool'')]\<rparr>"
      "[(''name'', VString ''no_such_tool'')]" "''no_such_tool''" recording_server io0]
  by (simp add: tool_names io0_def)

text \<open>
  C2, as the specification states it, is false: the same request names an unknown tool,
  and the response carries no error member at all, so no code \<open>-32602\<close>.
\<close>

theorem unknown_tool_invalid_params_counterexample:
  "map Error (stdout (handleRequest recording_server
      \<lparr>JSONRPC = ''2.0'', ID = VFloat64 2, Method = ''tools/call'',
       Params = VMap [(''name'', VString ''no_such_tool'')]\<rparr> io0)) = [None]"
  by (simp add: handleRequest_def handleToolCall_def assert_map_def assert_string_def
      map_index_def executeTool_def sendResponse_def io0_def)

text \<open>
  C2, amended. For every \<^verbatim>\<open>tools/call\<close> request, if the params are not a map, or are a
  map in which \<^verbatim>\<open>name\<close> is missing or is not a string, the dispatcher sends exactly one
  response, a protocol-level error with code \<open>-32602\<close> and no result. (An unknown tool
  name is answered as C1 says.)
\<close>

theorem missing_name_invalid_params:
  assumes "Method request = ''tools/call''"
    and "(\<forall>params. Params request \<noteq> VMap params) \<or>
         (\<exists>params. Params request = VMap params \<and> (\<forall>name. map_of params ''name'' \<noteq> Some (VString name)))"
  shows "handleRequest s request \<sigma> =
     \<sigma>\<lparr>stdout := stdout \<sigma> @
       [\<lparr>RespJSONRPC = ''2.0'', RespID = ID request, Result = None,
         Error = Some \<lparr>Code = - 32602,
                       Message = (if snd (assert_map (Params request)) then ''Missing tool name''
                                  else ''Invalid params''),
                       Data = VNil\<rparr>\<rparr>]\<rparr>"
proof -
  from assms(2) consider
    (a) "snd (assert_map (Params request)) = False"
    | (b) params where "assert_map (Params request) = (params, True)"
        "snd (assert_string (map_index params ''name'')) = False"
  proof (elim disjE exE conjE)
    assume "\<forall>params. Params request \<noteq> VMap params"
    then have "snd (assert_map (Params request)) = False"
      by (cases "Params request") (auto simp: assert_map_def)
    then show ?thesis by (rule a)
  next
    fix params
    assume p: "Params request = VMap params"
      and n: "\<forall>name. map_of params ''name'' \<noteq> Some (VString name)"
    have "snd (assert_string (map_index params ''name'')) = False"
    proof (cases "map_of params ''name''")
      case None
      then show ?thesis by (simp add: map_index_def assert_string_def)
    next
      case (Some v)
      with n show ?thesis by (cases v) (auto simp: map_index_def assert_string_def)
    qed
    with p show ?thesis by (intro b [of params]) (simp_all add: assert_map_def)
  qed
  then show ?thesis
  proof cases
    case a
    with assms(1) show ?thesis
      by (cases "assert_map (Params request)")
        (simp add: handleRequest_def handleToolCall_def sendError_def sendJSON_def)
  next
    case b
    with assms(1) show ?thesis
      by (cases "assert_string (map_index params ''name'')")
        (simp add: handleRequest_def handleToolCall_def sendError_def sendJSON_def)
  qed
qed

theorem missing_name_invalid_params_witness:
  "handleRequest recording_server
      \<lparr>JSONRPC = ''2.0'', ID = VFloat64 3, Method = ''tools/call'',
       Params = VMap [(''arguments'', VMap [])]\<rparr> io0 =
   \<lparr>stdout =
      [\<lparr>RespJSONRPC = ''2.0'', RespID = VFloat64 3, Result = None,
        Error = Some \<lparr>Code = - 32602, Message = ''Missing tool name'', Data = VNil\<rparr>\<rparr>],
    remote = []\<rparr>"
  using missing_name_invalid_params [of
      "\<lparr>JSONRPC = ''2.0'', ID = VFloat64 3, Method = ''tools/call'',
        Params = VMap [(''arguments'', VMap [])]\<rparr>" recording_server io0]
  by (simp add: assert_map_def io0_def)


section \<open>The transport loop\<close>

lemma line_facts:
  "strings_TrimSpace line_call_unknown \<noteq> ''''"
  "strings_TrimSpace line_call_pull_request \<noteq> ''''"
  "strings_TrimSpace ''not json'' \<noteq> ''''"
  "Unmarshal_lines ''not json'' zero_request =
     (Some ''invalid character'', \<lparr>JSONRPC = '''', ID = VNil, Method = '''', Params = VNil\<rparr>)"
  "Unmarshal_lines line_call_unknown zero_request =
     (None, \<lparr>JSONRPC = ''2.0'', ID = VFloat64 2, Method = ''tools/call'',
             Params = VMap [(''name'', VString ''no_such_tool'')]\<rparr>)"
  "Unmarshal_lines line_call_pull_request zero_request =
     (None, \<lparr>JSONRPC = ''2.0'', ID = VFloat64 4, Method = ''tools/call'',
             Params = VMap [(''name'', VString ''github_get_pull_request''),
                            (''arguments'', VMap [(''owner'', VString ''o''),
                                                  (''repo'', VFloat64 7)])]\<rparr>)"
  by (simp_all add: strings_TrimSpace_def space_runes_def line_tools_list_def
      line_call_unknown_def line_call_nameless_def line_call_pull_request_def
      line_large_id_def Unmarshal_lines_def zero_request_def)

text \<open>
  Whatever came before it, a non-blank line is answered by exactly one response, and the
  loop and the handlers copy the id of the decoded request into it unchanged. What the
  response carries is therefore the id as \<^verbatim>\<open>json.Unmarshal\<close> stored it.
\<close>

lemma Start_copies_decoded_id:
  assumes "trim line \<noteq> ''''"
  shows "\<exists>r. stdout (Start trim decode s (pre @ [line]) \<sigma>) =
               stdout (Start trim decode s pre \<sigma>) @ [r]
           \<and> RespID r = ID (snd (decode line zero_request))"
  using assms Start_line_emits [of trim line decode s "Start trim decode s pre \<sigma>"]
  by (auto simp: Start_append)

lemma line_large_id_facts:
  "strings_TrimSpace line_large_id \<noteq> ''''"
  "float64_of_int 9007199254740993 = Some 9007199254740992"
  "Unmarshal_lines line_large_id zero_request =
     (None, \<lparr>JSONRPC = ''2.0'', ID = VFloat64 9007199254740992, Method = ''tools/list'',
             Params = VNil\<rparr>)"
proof -
  show "strings_TrimSpace line_large_id \<noteq> ''''"
    by (simp add: strings_TrimSpace_def space_runes_def line_large_id_def)
  show f: "float64_of_int 9007199254740993 = Some 9007199254740992"
    by code_simp
  show "Unmarshal_lines line_large_id zero_request =
     (None, \<lparr>JSONRPC = ''2.0'', ID = VFloat64 9007199254740992, Method = ''tools/list'',
             Params = VNil\<rparr>)"
    by (simp add: Unmarshal_lines_def f zero_request_def line_tools_list_def
        line_call_unknown_def line_call_nameless_def line_call_pull_request_def
        line_large_id_def)
qed

text \<open>
  C3 fails on the code for a numeric id that is not a float64. The request line
  \<^verbatim>\<open>{"jsonrpc":"2.0","id":9007199254740993,"method":"tools/list"}\<close> carries the id
  \<open>2^53 + 1\<close>. The \<^verbatim>\<open>ID interface{}\<close> field makes \<^verbatim>\<open>json.Unmarshal\<close> store the number as
  the nearest float64, which is \<open>2^53\<close>, and the response carries that value:
  \<^verbatim>\<open>json.Marshal\<close> writes it as \<^verbatim>\<open>9007199254740992\<close>, which is not the id of the
  request.
\<close>

theorem large_id_rounded:
  "map RespID (stdout (Start strings_TrimSpace Unmarshal_lines recording_server
      [line_large_id] io0)) = [VFloat64 9007199254740992]
   \<and> float64_of_int 9007199254740993 = Some 9007199254740992
   \<and> VFloat64 9007199254740992 \<noteq> VFloat64 9007199254740993"
  by (simp add: line_large_id_facts handleRequest_def handleToolsList_def sendResponse_def
      io0_def)

text \<open>
  C4. A non-blank line that fails to decode adds exactly one response to the output, the
  error with code \<open>-32700\<close>, and the loop then goes on with the lines that follow, from
  the state it had reached.
\<close>

theorem parse_error_continues:
  assumes "trim line \<noteq> ''''"
    and "decode line zero_request = (Some err, request)"
  shows "Start trim decode s (pre @ line # rest) \<sigma> =
     Start trim decode s rest
       ((Start trim decode s pre \<sigma>)
          \<lparr>stdout := stdout (Start trim decode s pre \<sigma>) @
             [\<lparr>RespJSONRPC = ''2.0'', RespID = ID request, Result = None,
               Error = Some \<lparr>Code = - 32700, Message = ''Parse error'', Data = VNil\<rparr>\<rparr>]\<rparr>)"
  using assms by (simp add: Start_append sendError_def sendJSON_def)

text \<open>
  A line that does not decode, followed by a \<^verbatim>\<open>tools/list\<close> request: one parse error,
  then the answer to the request.
\<close>

theorem parse_error_continues_witness:
  "map (map_option Code \<circ> Error) (stdout (Start strings_TrimSpace Unmarshal_lines recording_server
      [''not json'', line_tools_list] io0)) = [Some (- 32700), None]"
  using parse_error_continues [of strings_TrimSpace "''not json''" Unmarshal_lines
      "''invalid character''" "\<lparr>JSONRPC = '''', ID = VNil, Method = '''', Params = VNil\<rparr>"
      recording_server "[]" "[line_tools_list]" io0]
  by (simp add: line_facts line_tools_list_facts handleRequest_def handleToolsList_def
      sendResponse_def io0_def)

lemma executeTool_known:
  "\<forall>name\<in>set (map Name getAvailableTools).
     \<exists>g j n. executeTool s name args w = Github s g w \<or> executeTool s name args w = Jira s j w
        \<or> executeTool s name args w = Notion s n w"
  unfolding tool_names
  by (simp add: executeTool_def Let_def) blast

text \<open>
  C5. Whatever came before it, a \<^verbatim>\<open>tools/list\<close> request is answered by exactly one
  response, whose result is the map with the one key \<^verbatim>\<open>tools\<close> and the catalog as its
  value. The catalog is a constant list of 31 tools with distinct names, and its names
  are the tools of the dispatcher: \<^verbatim>\<open>executeTool\<close> calls a client for every name of the
  catalog and reports an unknown tool for every other name.
\<close>

theorem tools_list_fixed:
  assumes "trim line \<noteq> ''''"
    and "decode line zero_request = (None, request)"
    and "Method request = ''tools/list''"
  shows "stdout (Start trim decode s (pre @ [line]) \<sigma>) =
       stdout (Start trim decode s pre \<sigma>) @
         [\<lparr>RespJSONRPC = ''2.0'', RespID = ID request,
           Result = Some (ToolsListResult [(''tools'', getAvailableTools)]), Error = None\<rparr>]
     \<and> length getAvailableTools = 31
     \<and> distinct (map Name getAvailableTools)
     \<and> (\<forall>name\<in>set (map Name getAvailableTools). \<forall>args w.
           \<exists>g j n. executeTool s name args w = Github s g w
             \<or> executeTool s name args w = Jira s j w
             \<or> executeTool s name args w = Notion s n w)
     \<and> (\<forall>name. name \<notin> set (map Name getAvailableTools) \<longrightarrow>
           (\<forall>args w. executeTool s name args w = (Inl (''unknown tool: '' @ name), w)))"
proof -
  have "stdout (Start trim decode s (pre @ [line]) \<sigma>) =
       stdout (Start trim decode s pre \<sigma>) @
         [\<lparr>RespJSONRPC = ''2.0'', RespID = ID request,
           Result = Some (ToolsListResult [(''tools'', getAvailableTools)]), Error = None\<rparr>]"
    using assms
    by (simp add: Start_append handleRequest_def handleToolsList_def sendResponse_def)
  moreover have "length getAvailableTools = 31"
    using arg_cong [OF tool_names, of length] by simp
  moreover have "distinct (map Name getAvailableTools)"
    unfolding tool_names by simp
  ultimately show ?thesis
    using executeTool_known [of s] executeTool_unknown [of _ s] by blast
qed

text \<open>
  After a tool call that reached GitHub, a \<^verbatim>\<open>tools/list\<close> request is answered with the
  catalog of 31 tools.
\<close>

theorem tools_list_fixed_witness:
  "map Result (stdout (Start strings_TrimSpace Unmarshal_lines recording_server
      [line_call_pull_request, line_tools_list] io0)) =
     map Result (stdout (Start strings_TrimSpace Unmarshal_lines recording_server
      [line_call_pull_request] io0)) @
     [Some (ToolsListResult [(''tools'', getAvailableTools)])]
   \<and> length getAvailableTools = 31
   \<and> ''jira_get_ticket'' \<in> set (map Name getAvailableTools)
   \<and> executeTool recording_server ''jira_get_ticket'' [] [] =
       (Inr ''ok'', [JiraCall (GetTicketByID '''')])
   \<and> executeTool recording_server ''jira_get_tickets'' [] [] =
       (Inl ''unknown tool: jira_get_tickets'', [])"
proof -
  note t = tools_list_fixed [of strings_TrimSpace line_tools_list Unmarshal_lines
      "\<lparr>JSONRPC = ''2.0'', ID = VFloat64 1, Method = ''tools/list'', Params = VNil\<rparr>"
      recording_server "[line_call_pull_request]" io0, OF line_tools_list_facts(1)
      line_tools_list_facts(2)]
  have n: "''jira_get_tickets'' \<notin> set (map Name getAvailableTools)"
    "''jira_get_ticket'' \<in> set (map Name getAvailableTools)"
    unfolding tool_names by simp_all
  have "executeTool recording_server ''jira_get_ticket'' [] [] =
       (Inr ''ok'', [JiraCall (GetTicketByID '''')])"
    by (simp add: executeTool_def recording_server_def map_index_def assert_string_def)
  with t n show ?thesis by simp
qed

lemma members_xor:
  "(Result r = None) \<noteq> (Error r = None) \<Longrightarrow>
   (''result'' \<in> set (marshal_members r)) \<noteq> (''error'' \<in> set (marshal_members r))"
  by (cases "Result r"; cases "Error r"; simp add: marshal_members_def)

text \<open>
  C7. Every response the loop writes has, as a JSON object, exactly one of the members
  \<^verbatim>\<open>result\<close> and \<^verbatim>\<open>error\<close>.
\<close>

theorem result_xor_error:
  "\<exists>rs. stdout (Start trim decode s lines \<sigma>) = stdout \<sigma> @ rs
       \<and> (\<forall>r\<in>set rs. (''result'' \<in> set (marshal_members r)) \<noteq> (''error'' \<in> set (marshal_members r)))"
proof -
  from Start_emits [of trim decode s lines \<sigma>] obtain rs where
    "stdout (Start trim decode s lines \<sigma>) = stdout \<sigma> @ rs"
    and "\<forall>r\<in>set rs. (Result r = None) \<noteq> (Error r = None)"
    by blast
  then show ?thesis
    using members_xor by blast
qed

text \<open>
  Three lines (a \<^verbatim>\<open>tools/list\<close> request, a line that does not decode, a call of an
  unknown tool) and the members of the three responses.
\<close>

theorem result_xor_error_witness:
  "map marshal_members (stdout (Start strings_TrimSpace Unmarshal_lines recording_server
      [line_tools_list, ''not json'', line_call_unknown] io0)) =
     [[''jsonrpc'', ''id'', ''result''], [''jsonrpc'', ''id'', ''error''],
      [''jsonrpc'', ''id'', ''result'']]"
proof -
  have "stdout (Start strings_TrimSpace Unmarshal_lines recording_server
      [line_tools_list, ''not json'', line_call_unknown] io0) =
    [\<lparr>RespJSONRPC = ''2.0'', RespID = VFloat64 1,
       Result = Some (ToolsListResult [(''tools'', getAvailableTools)]), Error = None\<rparr>,
     \<lparr>RespJSONRPC = ''2.0'', RespID = VNil, Result = None,
       Error = Some \<lparr>Code = - 32700, Message = ''Parse error'', Data = VNil\<rparr>\<rparr>,
     \<lparr>RespJSONRPC = ''2.0'', RespID = VFloat64 2,
       Result = Some (ToolCallResult
         \<lparr>Content = [\<lparr>Type = ''text'', Text = ''Error: unknown tool: no_such_tool''\<rparr>],
          IsError = True\<rparr>),
       Error = None\<rparr>]"
    by (simp add: line_facts line_tools_list_facts handleRequest_def handleToolsList_def
        handleToolCall_def assert_map_def assert_string_def map_index_def
        executeTool_unknown tool_names sendResponse_def sendError_def io0_def)
  then show ?thesis
    using result_xor_error [of strings_TrimSpace Unmarshal_lines recording_server
        "[line_tools_list, ''not json'', line_call_unknown]" io0]
    by (simp add: marshal_members_def)
qed


section \<open>Absent and mistyped arguments\<close>







end
